theory Spec2Isabelle
  imports Complex_Main
begin

section \<open>JavaScript strings\<close>

text \<open>
  Strings are lists of \<^typ>\<open>char\<close>; the model covers ASCII text. The white space of
  \<open>String.prototype.trim\<close> and of the regular expression class \<open>\s\<close> is, inside ASCII,
  tab, line feed, vertical tab, form feed, carriage return and space.
\<close>

definition isWhiteSpace :: "char \<Rightarrow> bool" where
  "isWhiteSpace c =
     (c = CHR 0x09 \<or> c = CHR 0x0A \<or> c = CHR 0x0B \<or> c = CHR 0x0C \<or> c = CHR 0x0D \<or> c = CHR 0x20)"

definition trimStart :: "string \<Rightarrow> string" where
  "trimStart s = dropWhile isWhiteSpace s"

definition trimEnd :: "string \<Rightarrow> string" where
  "trimEnd s = rev (dropWhile isWhiteSpace (rev s))"

definition trim :: "string \<Rightarrow> string" where
  "trim s = trimEnd (trimStart s)"

text \<open>\<open>s.split(c)\<close> for a one-character separator: never empty, \<open>"".split(c)\<close> is \<open>[""]\<close>.\<close>

fun splitOn :: "char \<Rightarrow> string \<Rightarrow> string list" where
  "splitOn sep [] = [[]]"
| "splitOn sep (c # cs) =
     (if c = sep then [] # splitOn sep cs
      else (case splitOn sep cs of
              [] \<Rightarrow> [[c]]
            | l # ls \<Rightarrow> (c # l) # ls))"

fun startsWith :: "string \<Rightarrow> string \<Rightarrow> bool" where
  "startsWith s [] = True"
| "startsWith [] (p # ps) = False"
| "startsWith (c # cs) (p # ps) = (c = p \<and> startsWith cs ps)"

definition endsWith :: "string \<Rightarrow> string \<Rightarrow> bool" where
  "endsWith s suf = startsWith (rev s) (rev suf)"

text \<open>\<open>s.includes(sub)\<close>: \<open>sub\<close> occurs in \<open>s\<close> as a contiguous substring.\<close>

fun includesStr :: "string \<Rightarrow> string \<Rightarrow> bool" where
  "includesStr [] sub = (sub = [])"
| "includesStr (c # cs) sub = (startsWith (c # cs) sub \<or> includesStr cs sub)"

definition isUpper :: "char \<Rightarrow> bool" where
  "isUpper c = (65 \<le> (of_char c :: int) \<and> (of_char c :: int) \<le> 90)"

definition isLower :: "char \<Rightarrow> bool" where
  "isLower c = (97 \<le> (of_char c :: int) \<and> (of_char c :: int) \<le> 122)"

definition isDigit :: "char \<Rightarrow> bool" where
  "isDigit c = (48 \<le> (of_char c :: int) \<and> (of_char c :: int) \<le> 57)"

definition lowerChar :: "char \<Rightarrow> char" where
  "lowerChar c = (if isUpper c then char_of ((of_char c :: int) + 32) else c)"

definition upperChar :: "char \<Rightarrow> char" where
  "upperChar c = (if isLower c then char_of ((of_char c :: int) - 32) else c)"

definition toLowerCase :: "string \<Rightarrow> string" where
  "toLowerCase s = map lowerChar s"

definition toUpperCase :: "string \<Rightarrow> string" where
  "toUpperCase s = map upperChar s"

text \<open>\<open>s.replace(/a/g, b)\<close> for single characters \<open>a\<close> and \<open>b\<close>.\<close>

definition replaceAllChar :: "char \<Rightarrow> char \<Rightarrow> string \<Rightarrow> string" where
  "replaceAllChar a b s = map (\<lambda>c. if c = a then b else c) s"

section \<open>JavaScript numbers and values\<close>

text \<open>
  A number is NaN, an infinity or a finite value. Finite values are exact rationals:
  rounding to binary64 and the sign of zero are outside the model.
\<close>

datatype jsnum = NaN | PosInf | NegInf | Fin rat

definition isNaN :: "jsnum \<Rightarrow> bool" where
  "isNaN n = (n = NaN)"

definition isFiniteNum :: "jsnum \<Rightarrow> bool" where
  "isFiniteNum n = (case n of Fin q \<Rightarrow> True | _ \<Rightarrow> False)"

text \<open>\<open>Number.isInteger\<close>.\<close>

definition isInteger :: "jsnum \<Rightarrow> bool" where
  "isInteger n = (case n of Fin q \<Rightarrow> q = of_int \<lfloor>q\<rfloor> | _ \<Rightarrow> False)"

definition negNum :: "jsnum \<Rightarrow> jsnum" where
  "negNum n = (case n of NaN \<Rightarrow> NaN | PosInf \<Rightarrow> NegInf | NegInf \<Rightarrow> PosInf | Fin q \<Rightarrow> Fin (- q))"

text \<open>The operator \<open>+\<close> on two numbers.\<close>

fun addNum :: "jsnum \<Rightarrow> jsnum \<Rightarrow> jsnum" where
  "addNum NaN b = NaN"
| "addNum a NaN = NaN"
| "addNum PosInf NegInf = NaN"
| "addNum NegInf PosInf = NaN"
| "addNum PosInf b = PosInf"
| "addNum a PosInf = PosInf"
| "addNum NegInf b = NegInf"
| "addNum a NegInf = NegInf"
| "addNum (Fin p) (Fin q) = Fin (p + q)"

definition digitVal :: "char \<Rightarrow> int" where
  "digitVal c = (of_char c :: int) - 48"

definition digitsVal :: "string \<Rightarrow> int" where
  "digitsVal ds = foldl (\<lambda>a c. 10 * a + digitVal c) 0 ds"

definition signOf :: "string \<Rightarrow> bool \<times> string" where
  "signOf s = (case s of
       [] \<Rightarrow> (False, s)
     | c # r \<Rightarrow> if c = CHR ''-'' then (True, r) else if c = CHR ''+'' then (False, r) else (False, s))"

definition withSign :: "bool \<Rightarrow> jsnum \<Rightarrow> jsnum" where
  "withSign neg n = (if neg then negNum n else n)"

text \<open>
  The exponent part \<open>e\<close>, \<open>e+\<close> or \<open>e-\<close> followed by digits, at the head of a string:
  the exponent and what follows it, or nothing when there is no complete exponent part.
\<close>

definition scanExponent :: "string \<Rightarrow> (int \<times> string) option" where
  "scanExponent s = (case s of
       [] \<Rightarrow> None
     | c # r \<Rightarrow>
         if c = CHR ''e'' \<or> c = CHR ''E'' then
           (let (neg, r') = signOf r;
                ds = takeWhile isDigit r'
            in if ds = [] then None
               else Some (if neg then - digitsVal ds else digitsVal ds,
                          dropWhile isDigit r'))
         else None)"

definition pow10 :: "int \<Rightarrow> rat" where
  "pow10 e = (if 0 \<le> e then 10 ^ nat e else 1 / 10 ^ nat (- e))"

text \<open>
  The longest prefix that is an unsigned decimal literal of the grammar of numeric
  strings (\<open>Infinity\<close>, \<open>12\<close>, \<open>12.\<close>, \<open>12.5\<close>, \<open>.5\<close>, each with an optional exponent):
  its value and the rest of the string.
\<close>

definition scanUnsigned :: "string \<Rightarrow> (jsnum \<times> string) option" where
  "scanUnsigned s =
     (if startsWith s ''Infinity'' then Some (PosInf, drop 8 s)
      else
        (let ip = takeWhile isDigit s;
             r1 = dropWhile isDigit s;
             hasDot = (r1 \<noteq> [] \<and> hd r1 = CHR ''.'');
             fp = (if hasDot then takeWhile isDigit (tl r1) else []);
             r2 = (if hasDot then dropWhile isDigit (tl r1) else r1)
         in if ip = [] \<and> fp = [] then None
            else
              (let m = of_int (digitsVal (ip @ fp)) / 10 ^ length fp
               in case scanExponent r2 of
                    None \<Rightarrow> Some (Fin m, r2)
                  | Some (e, r3) \<Rightarrow> Some (Fin (m * pow10 e), r3))))"

text \<open>\<open>parseFloat(s)\<close>: leading white space is skipped, trailing text is ignored.\<close>

definition parseFloat :: "string \<Rightarrow> jsnum" where
  "parseFloat s =
     (let (neg, u) = signOf (trimStart s)
      in case scanUnsigned u of
           None \<Rightarrow> NaN
         | Some (v, r) \<Rightarrow> withSign neg v)"

text \<open>\<open>parseInt(s, 10)\<close>: an optional sign and the longest run of decimal digits.\<close>

definition parseInt10 :: "string \<Rightarrow> jsnum" where
  "parseInt10 s =
     (let (neg, u) = signOf (trimStart s);
          ds = takeWhile isDigit u
      in if ds = [] then NaN
         else withSign neg (Fin (of_int (digitsVal ds))))"

definition hexVal :: "char \<Rightarrow> int option" where
  "hexVal c =
     (if isDigit c then Some (digitVal c)
      else if 97 \<le> (of_char c :: int) \<and> (of_char c :: int) \<le> 102 then Some ((of_char c :: int) - 87)
      else if 65 \<le> (of_char c :: int) \<and> (of_char c :: int) \<le> 70 then Some ((of_char c :: int) - 55)
      else None)"

text \<open>A non-empty run of digits of the given radix, as a number; NaN otherwise.\<close>

definition radixVal :: "int \<Rightarrow> string \<Rightarrow> jsnum" where
  "radixVal b ds =
     (if ds \<noteq> [] \<and> list_all (\<lambda>c. case hexVal c of None \<Rightarrow> False | Some d \<Rightarrow> d < b) ds
      then Fin (of_int (foldl (\<lambda>a c. b * a + (case hexVal c of None \<Rightarrow> 0 | Some d \<Rightarrow> d)) 0 ds))
      else NaN)"

text \<open>
  \<open>Number(s)\<close> on a string: the whole trimmed string must be a numeric literal; the
  empty string is 0; \<open>0x\<close>, \<open>0o\<close> and \<open>0b\<close> literals carry no sign.
\<close>

definition stringToNumber :: "string \<Rightarrow> jsnum" where
  "stringToNumber s =
     (let t = trim s
      in if t = [] then Fin 0
         else if startsWith t ''0x'' \<or> startsWith t ''0X'' then radixVal 16 (drop 2 t)
         else if startsWith t ''0o'' \<or> startsWith t ''0O'' then radixVal 8 (drop 2 t)
         else if startsWith t ''0b'' \<or> startsWith t ''0B'' then radixVal 2 (drop 2 t)
         else
           (let (neg, u) = signOf t
            in case scanUnsigned u of
                 None \<Rightarrow> NaN
               | Some (v, r) \<Rightarrow> if r = [] then withSign neg v else NaN))"

section \<open>Regular expressions\<close>

text \<open>
  The regular expressions of the sources, with the backtracking order of the JavaScript
  matcher: \<open>rxMatch r s caps\<close> lists every way \<open>r\<close> matches a prefix of \<open>s\<close>, as the
  rest of the string and the capture groups, in the order the matcher would try them
  (greedy quantifiers first try the longest repetition, alternatives go left to right).
  The head of the list is the match JavaScript reports. Quantifiers range over
  character classes, which is all the sources use.
\<close>

datatype cclass = CWord | CSpace | CDigit | CAny | CChr char | CNotChr char | COneOf string

definition isWordChar :: "char \<Rightarrow> bool" where
  "isWordChar c = (isUpper c \<or> isLower c \<or> isDigit c \<or> c = CHR ''_'')"

fun inClass :: "cclass \<Rightarrow> char \<Rightarrow> bool" where
  "inClass CWord c = isWordChar c"
| "inClass CSpace c = isWhiteSpace c"
| "inClass CDigit c = isDigit c"
| "inClass CAny c = (c \<noteq> CHR 0x0A \<and> c \<noteq> CHR 0x0D)"
| "inClass (CChr a) c = (c = a)"
| "inClass (CNotChr a) c = (c \<noteq> a)"
| "inClass (COneOf as) c = (c \<in> set as)"

datatype rx =
    Eps
  | Ch cclass
  | Lit string
  | Seq rx rx
  | Alt rx rx
  | Opt rx
  | Star cclass
  | Plus cclass
  | Grp nat rx

type_synonym captures = "(nat \<times> string) list"

fun rxMatch :: "rx \<Rightarrow> string \<Rightarrow> captures \<Rightarrow> (string \<times> captures) list" where
  "rxMatch Eps s c = [(s, c)]"
| "rxMatch (Ch k) s c =
     (case s of [] \<Rightarrow> [] | x # r \<Rightarrow> if inClass k x then [(r, c)] else [])"
| "rxMatch (Lit l) s c = (if startsWith s l then [(drop (length l) s, c)] else [])"
| "rxMatch (Seq a b) s c = concat (map (\<lambda>(r, c'). rxMatch b r c') (rxMatch a s c))"
| "rxMatch (Alt a b) s c = rxMatch a s c @ rxMatch b s c"
| "rxMatch (Opt a) s c = rxMatch a s c @ [(s, c)]"
| "rxMatch (Star k) s c =
     map (\<lambda>n. (drop n s, c)) (rev [0 ..< Suc (length (takeWhile (inClass k) s))])"
| "rxMatch (Plus k) s c =
     map (\<lambda>n. (drop n s, c)) (rev [1 ..< Suc (length (takeWhile (inClass k) s))])"
| "rxMatch (Grp i a) s c =
     map (\<lambda>(r, c'). (r, (i, take (length s - length r) s) # c')) (rxMatch a s c)"

definition seqs :: "rx list \<Rightarrow> rx" where
  "seqs rs = foldr Seq rs Eps"

definition alts :: "rx list \<Rightarrow> rx" where
  "alts rs = foldr Alt (butlast rs) (last rs)"

text \<open>\<open>s.match(r)\<close> for a pattern without anchors: the leftmost match, its groups.\<close>

fun rxSearch :: "rx \<Rightarrow> string \<Rightarrow> captures option" where
  "rxSearch r [] = (case rxMatch r [] [] of [] \<Rightarrow> None | (rest, c) # ms \<Rightarrow> Some c)"
| "rxSearch r (x # xs) =
     (case rxMatch r (x # xs) [] of [] \<Rightarrow> rxSearch r xs | (rest, c) # ms \<Rightarrow> Some c)"

text \<open>\<open>/^r$/.test(s)\<close>: some way of matching \<open>r\<close> consumes the whole string.\<close>

definition rxTestFull :: "rx \<Rightarrow> string \<Rightarrow> bool" where
  "rxTestFull r s = list_ex (\<lambda>(rest, c). rest = []) (rxMatch r s [])"

text \<open>Group \<open>i\<close> of a match; \<open>None\<close> is JavaScript's \<open>undefined\<close> (the group took no part).\<close>

definition group :: "captures \<Rightarrow> nat \<Rightarrow> string option" where
  "group c i = map_of c i"

section \<open>JavaScript values and objects\<close>

text \<open>
  The values that flow through the parsers. A \<open>Date\<close> object is its time value (NaN
  for an invalid date) and the text \<open>String(date)\<close> renders; both are fixed by the host
  (time zone, date parser) and reach the model through the parameter \<open>newDate\<close> of
  \<open>parseValue\<close>. An object is the list of its own properties in the order
  \<open>Object.keys\<close> enumerates them; inherited properties are outside the model.
\<close>

datatype jsval =
    Undefined
  | Null
  | Bool bool
  | Num jsnum
  | Str string
  | DateObj jsnum string
  | Arr "jsval list"
  | Obj "(string \<times> jsval) list"

type_synonym jsobj = "(string \<times> jsval) list"

text \<open>The decimal digits of a non-negative integer.\<close>

function intToDigits :: "int \<Rightarrow> string" where
  "intToDigits n =
     (if n < 10 then [char_of (48 + n)]
      else intToDigits (n div 10) @ [char_of (48 + n mod 10)])"
  by pat_completeness auto
termination
  by (relation "measure nat") auto

declare intToDigits.simps [simp del]

fun fracDigits :: "nat \<Rightarrow> rat \<Rightarrow> string" where
  "fracDigits 0 r = []"
| "fracDigits (Suc k) r =
     (if r = 0 then []
      else char_of (48 + nat \<lfloor>r * 10\<rfloor>) # fracDigits k (r * 10 - of_int \<lfloor>r * 10\<rfloor>))"

text \<open>
  \<open>String(n)\<close> on a number, in decimal notation. The exponent notation of very large
  and very small magnitudes is outside the model, and a fraction is printed to at most
  17 digits.
\<close>

definition numToString :: "jsnum \<Rightarrow> string" where
  "numToString n = (case n of
       NaN \<Rightarrow> ''NaN''
     | PosInf \<Rightarrow> ''Infinity''
     | NegInf \<Rightarrow> ''-Infinity''
     | Fin q \<Rightarrow>
         (if q < 0 then ''-'' else []) @ intToDigits \<lfloor>\<bar>q\<bar>\<rfloor> @
         (if \<bar>q\<bar> = of_int \<lfloor>\<bar>q\<bar>\<rfloor> then []
          else ''.'' @ fracDigits 17 (\<bar>q\<bar> - of_int \<lfloor>\<bar>q\<bar>\<rfloor>)))"

fun joinWith :: "string \<Rightarrow> string list \<Rightarrow> string" where
  "joinWith sep [] = []"
| "joinWith sep [x] = x"
| "joinWith sep (x # y # ys) = x @ sep @ joinWith sep (y # ys)"

text \<open>\<open>String(v)\<close>.\<close>

fun jsToString :: "jsval \<Rightarrow> string"
  and elemStrings :: "jsval list \<Rightarrow> string list" where
  "jsToString Undefined = ''undefined''"
| "jsToString Null = ''null''"
| "jsToString (Bool b) = (if b then ''true'' else ''false'')"
| "jsToString (Num n) = numToString n"
| "jsToString (Str s) = s"
| "jsToString (DateObj t txt) = txt"
| "jsToString (Arr vs) = joinWith '','' (elemStrings vs)"
| "jsToString (Obj ps) = ''[object Object]''"
| "elemStrings [] = []"
| "elemStrings (v # vs) =
     (if v = Null \<or> v = Undefined then [] else jsToString v) # elemStrings vs"

text \<open>\<open>Number(v)\<close>.\<close>

definition jsToNumber :: "jsval \<Rightarrow> jsnum" where
  "jsToNumber v = (case v of
       Undefined \<Rightarrow> NaN
     | Null \<Rightarrow> Fin 0
     | Bool b \<Rightarrow> (if b then Fin 1 else Fin 0)
     | Num n \<Rightarrow> n
     | Str s \<Rightarrow> stringToNumber s
     | DateObj t txt \<Rightarrow> t
     | Arr vs \<Rightarrow> stringToNumber (jsToString (Arr vs))
     | Obj ps \<Rightarrow> NaN)"

text \<open>Truthiness, and the operator \<open>||\<close>.\<close>

definition truthy :: "jsval \<Rightarrow> bool" where
  "truthy v = (case v of
       Undefined \<Rightarrow> False
     | Null \<Rightarrow> False
     | Bool b \<Rightarrow> b
     | Num n \<Rightarrow> n \<noteq> NaN \<and> n \<noteq> Fin 0
     | Str s \<Rightarrow> s \<noteq> []
     | _ \<Rightarrow> True)"

definition jsOr :: "jsval \<Rightarrow> jsval \<Rightarrow> jsval" where
  "jsOr a b = (if truthy a then a else b)"

text \<open>\<open>typeof v === 'number'\<close>.\<close>

definition isNumber :: "jsval \<Rightarrow> bool" where
  "isNumber v = (case v of Num n \<Rightarrow> True | _ \<Rightarrow> False)"

text \<open>
  Property keys that are array indices (canonical decimal strings up to \<open>2^32 - 2\<close>) are
  enumerated first, in ascending order; the other keys follow in creation order.
\<close>

definition isArrayIndex :: "string \<Rightarrow> bool" where
  "isArrayIndex k =
     (k = ''0'' \<or> (k \<noteq> [] \<and> list_all isDigit k \<and> hd k \<noteq> CHR ''0'' \<and> digitsVal k \<le> 4294967294))"

fun insertIndexKey :: "string \<Rightarrow> 'v \<Rightarrow> (string \<times> 'v) list \<Rightarrow> (string \<times> 'v) list" where
  "insertIndexKey k v [] = [(k, v)]"
| "insertIndexKey k v ((k', v') # ps) =
     (if isArrayIndex k' \<and> digitsVal k' < digitsVal k then (k', v') # insertIndexKey k v ps
      else (k, v) # (k', v') # ps)"

text \<open>\<open>ob[k]\<close> and \<open>ob[k] = v\<close>.\<close>

definition objGet :: "jsobj \<Rightarrow> string \<Rightarrow> jsval" where
  "objGet ob k = (case map_of ob k of None \<Rightarrow> Undefined | Some v \<Rightarrow> v)"

text \<open>
  A \<open>Map\<close> keeps its keys in insertion order: \<open>m.set(k, v)\<close> replaces the value of a
  key in place or appends a new entry.
\<close>

fun mapSet :: "'k \<Rightarrow> 'v \<Rightarrow> ('k \<times> 'v) list \<Rightarrow> ('k \<times> 'v) list" where
  "mapSet k v [] = [(k, v)]"
| "mapSet k v (p # ps) = (if fst p = k then (k, v) # ps else p # mapSet k v ps)"

definition mapHas :: "('k \<times> 'v) list \<Rightarrow> 'k \<Rightarrow> bool" where
  "mapHas m k = (map_of m k \<noteq> None)"

definition objSet :: "(string \<times> 'v) list \<Rightarrow> string \<Rightarrow> 'v \<Rightarrow> (string \<times> 'v) list" where
  "objSet ob k v =
     (if mapHas ob k \<or> \<not> isArrayIndex k then mapSet k v ob
      else insertIndexKey k v ob)"

text \<open>
  \<open>row[k] = v\<close> on a row that starts as the literal \<open>{}\<close>. The name \<open>__proto__\<close> is the
  accessor of \<open>Object.prototype\<close>: while the row inherits from \<open>Object.prototype\<close>,
  assigning to it calls the setter, which makes an object or \<open>null\<close> the prototype of
  the row and ignores any other value; the row gets no property of that name. Once
  \<open>null\<close> has become the prototype the setter is out of reach and \<open>__proto__\<close> is a
  name like any other. Every other name creates or updates a property of the row. A row
  under construction is the list of its properties and the flag that it still inherits
  from \<open>Object.prototype\<close>; \<open>newRow\<close> is \<open>{}\<close>.
\<close>

definition assignProp :: "jsobj \<times> bool \<Rightarrow> string \<Rightarrow> jsval \<Rightarrow> jsobj \<times> bool" where
  "assignProp r k v =
     (case r of (row, inherits) \<Rightarrow>
        if k = ''__proto__'' \<and> inherits then (row, v \<noteq> Null)
        else (objSet row k v, inherits))"

definition newRow :: "jsobj \<times> bool" where
  "newRow = ([], True)"

definition objKeys :: "(string \<times> 'v) list \<Rightarrow> string list" where
  "objKeys ob = map fst ob"

definition objValues :: "(string \<times> 'v) list \<Rightarrow> 'v list" where
  "objValues ob = map snd ob"

section \<open>FileToChart: the file processor\<close>

text \<open>
  What the browser supplies: the \<open>Date\<close> constructor on a string (time value and
  rendering), \<open>JSON.parse\<close> (\<open>Inl\<close> the message of the exception when it throws) and
  the message of the \<open>TypeError\<close> raised by reading a property of \<open>null\<close> or
  \<open>undefined\<close>.
\<close>

record host =
  newDate :: "string \<Rightarrow> jsnum \<times> string"
  jsonParse :: "string \<Rightarrow> string + jsval"
  nullAccessMessage :: "string \<Rightarrow> string"

text \<open>\<open>FileProcessor.parseCSVLine\<close> (FileToChart.tsx): the loop over the characters.\<close>

fun FileProcessor_parseCSVLine_loop ::
  "string \<Rightarrow> string \<Rightarrow> bool \<Rightarrow> string list \<Rightarrow> string list" where
  "FileProcessor_parseCSVLine_loop [] current inQuotes result = result @ [trim current]"
| "FileProcessor_parseCSVLine_loop (char # rest) current inQuotes result =
     (if char = CHR 0x22 \<and> \<not> inQuotes then
        FileProcessor_parseCSVLine_loop rest current True result
      else if char = CHR 0x22 \<and> inQuotes then
        (if rest \<noteq> [] \<and> hd rest = CHR 0x22
         then FileProcessor_parseCSVLine_loop (tl rest) (current @ [CHR 0x22]) inQuotes result
         else FileProcessor_parseCSVLine_loop rest current False result)
      else if char = CHR '','' \<and> \<not> inQuotes then
        FileProcessor_parseCSVLine_loop rest [] inQuotes (result @ [trim current])
      else FileProcessor_parseCSVLine_loop rest (current @ [char]) inQuotes result)"

definition FileProcessor_parseCSVLine :: "string \<Rightarrow> string list" where
  "FileProcessor_parseCSVLine line = FileProcessor_parseCSVLine_loop line [] False []"

text \<open>The pattern \<open>/^\d{4}-\d{2}-\d{2}(T\d{2}:\d{2}:\d{2}(\.\d{3})?Z?)?$/\<close>.\<close>

definition isoDateRx :: rx where
  "isoDateRx =
     seqs [Ch CDigit, Ch CDigit, Ch CDigit, Ch CDigit, Lit ''-'', Ch CDigit, Ch CDigit,
           Lit ''-'', Ch CDigit, Ch CDigit,
           Opt (seqs [Lit ''T'', Ch CDigit, Ch CDigit, Lit '':'', Ch CDigit, Ch CDigit,
                      Lit '':'', Ch CDigit, Ch CDigit,
                      Opt (seqs [Lit ''.'', Ch CDigit, Ch CDigit, Ch CDigit]),
                      Opt (Lit ''Z'')])]"

text \<open>\<open>FileProcessor.parseValue\<close>.\<close>

definition FileProcessor_parseValue :: "host \<Rightarrow> jsval \<Rightarrow> jsval" where
  "FileProcessor_parseValue H val =
     (if val = Null \<or> val = Undefined \<or> val = Str [] then Null
      else
        (let str = trim (jsToString val)
         in if toLowerCase str = ''true'' then Bool True
            else if toLowerCase str = ''false'' then Bool False
            else if \<not> isNaN (stringToNumber str) \<and> isFiniteNum (parseFloat str) then
              (let num = parseFloat str
               in Num (if isInteger num then parseInt10 str else num))
            else if rxTestFull isoDateRx str \<and> \<not> isNaN (fst (newDate H str))
              then DateObj (fst (newDate H str)) (snd (newDate H str))
            else Str str))"

text \<open>
  \<open>FileProcessor.processCSV\<close>. \<open>cellOrEmpty values index\<close> is
  \<open>values[index]?.trim() || ''\<close>; \<open>FileProcessor_csvRecord\<close> is the body of the loop
  over the data lines, which skips a line with no values.
\<close>

definition cellOrEmpty :: "string list \<Rightarrow> nat \<Rightarrow> string" where
  "cellOrEmpty values index = (if index < length values then trim (values ! index) else [])"

definition FileProcessor_csvRow :: "host \<Rightarrow> string list \<Rightarrow> string list \<Rightarrow> jsobj" where
  "FileProcessor_csvRow H headers values =
     fst (foldl (\<lambda>row (index, header).
                   assignProp row header (FileProcessor_parseValue H (Str (cellOrEmpty values index))))
            newRow (enumerate 0 headers))"

definition FileProcessor_csvRecord :: "host \<Rightarrow> string list \<Rightarrow> string list \<Rightarrow> jsobj option" where
  "FileProcessor_csvRecord H headers values =
     (if length values = 0 then None else Some (FileProcessor_csvRow H headers values))"

definition FileProcessor_processCSV :: "host \<Rightarrow> string \<Rightarrow> string + (string list \<times> jsobj list)" where
  "FileProcessor_processCSV H text =
     (let lines = splitOn CHR 0x0A (trim text)
      in if length lines < 2
         then Inl ''CSV file must contain at least a header row and one data row.''
         else
           (let headers = FileProcessor_parseCSVLine (lines ! 0)
            in Inr (headers,
                    List.map_filter
                      (\<lambda>line. FileProcessor_csvRecord H headers (FileProcessor_parseCSVLine line))
                      (tl lines))))"

text \<open>
  \<open>FileProcessor.processJSON\<close>. \<open>item[header]\<close> reads an own property, an element or
  the length of an array or a string, and throws on \<open>null\<close> and \<open>undefined\<close>.
\<close>

definition indexKeys :: "nat \<Rightarrow> string list" where
  "indexKeys n = map (\<lambda>i. intToDigits (int i)) [0 ..< n]"

definition ownKeys :: "jsval \<Rightarrow> string list" where
  "ownKeys v = (case v of
       Obj ps \<Rightarrow> objKeys ps
     | Arr vs \<Rightarrow> indexKeys (length vs)
     | _ \<Rightarrow> [])"

definition getProp :: "jsval \<Rightarrow> string \<Rightarrow> jsval option" where
  "getProp v k = (case v of
       Undefined \<Rightarrow> None
     | Null \<Rightarrow> None
     | Obj ps \<Rightarrow> Some (objGet ps k)
     | Arr vs \<Rightarrow>
         Some (if k = ''length'' then Num (Fin (of_nat (length vs)))
               else if isArrayIndex k \<and> digitsVal k < int (length vs) then vs ! nat (digitsVal k)
               else Undefined)
     | Str s \<Rightarrow>
         Some (if k = ''length'' then Num (Fin (of_nat (length s)))
               else if isArrayIndex k \<and> digitsVal k < int (length s) then Str [s ! nat (digitsVal k)]
               else Undefined)
     | _ \<Rightarrow> Some Undefined)"

text \<open>\<open>Array.from(new Set(xs))\<close>: the first occurrence of each element, in order.\<close>

definition setOrder :: "'a list \<Rightarrow> 'a list" where
  "setOrder xs = foldl (\<lambda>acc x. if x \<in> set acc then acc else acc @ [x]) [] xs"

fun FileProcessor_normalizeItem ::
  "host \<Rightarrow> jsval \<Rightarrow> string list \<Rightarrow> jsobj \<times> bool \<Rightarrow> string + jsobj" where
  "FileProcessor_normalizeItem H item [] normalizedItem = Inr (fst normalizedItem)"
| "FileProcessor_normalizeItem H item (header # headers) normalizedItem =
     (case getProp item header of
        None \<Rightarrow> Inl (nullAccessMessage H header)
      | Some v \<Rightarrow>
          FileProcessor_normalizeItem H item headers
            (assignProp normalizedItem header (FileProcessor_parseValue H v)))"

fun FileProcessor_normalizeAll :: "host \<Rightarrow> string list \<Rightarrow> jsval list \<Rightarrow> string + jsobj list" where
  "FileProcessor_normalizeAll H headers [] = Inr []"
| "FileProcessor_normalizeAll H headers (item # items) =
     (case FileProcessor_normalizeItem H item headers newRow of
        Inl e \<Rightarrow> Inl e
      | Inr r \<Rightarrow>
          (case FileProcessor_normalizeAll H headers items of
             Inl e \<Rightarrow> Inl e
           | Inr rs \<Rightarrow> Inr (r # rs)))"

definition FileProcessor_processJSON :: "host \<Rightarrow> string \<Rightarrow> string + (string list \<times> jsobj list)" where
  "FileProcessor_processJSON H text =
     (case jsonParse H text of
        Inl e \<Rightarrow> Inl ''Invalid JSON format. Please ensure the file contains valid JSON.''
      | Inr jsonData \<Rightarrow>
          (let data = (case jsonData of Arr items \<Rightarrow> items | _ \<Rightarrow> [jsonData])
           in if length data = 0
              then Inl ''JSON file contains no data. Please provide a file with data entries.''
              else
                (let headers = setOrder (concat (map ownKeys data))
                 in case FileProcessor_normalizeAll H headers data of
                      Inl e \<Rightarrow> Inl e
                    | Inr normalizedData \<Rightarrow> Inr (headers, normalizedData))))"

section \<open>FileToChart: aggregation, column selection and upload\<close>

text \<open>
  Chart data: the labels and, per series, its name and its values. Colours and the
  other presentation fields of a dataset are outside the model.
\<close>

record ChartDataset =
  dsLabel :: string
  dsData :: "jsnum list"

record ChartData =
  labels :: "string list"
  datasets :: "ChartDataset list"

text \<open>\<open>x || 0\<close> on a number that may be missing.\<close>

definition numOr0 :: "jsnum \<Rightarrow> jsnum" where
  "numOr0 n = (if n = NaN \<or> n = Fin 0 then Fin 0 else n)"

definition getOr0 :: "(string \<times> jsnum) list \<Rightarrow> string \<Rightarrow> jsnum" where
  "getOr0 m k = (case map_of m k of None \<Rightarrow> Fin 0 | Some n \<Rightarrow> numOr0 n)"

definition mapGetList :: "('k \<times> 'v list) list \<Rightarrow> 'k \<Rightarrow> 'v list" where
  "mapGetList m k = (case map_of m k of None \<Rightarrow> [] | Some vs \<Rightarrow> vs)"

text \<open>
  \<open>processDataForChart\<close> (FileToChart.tsx). \<open>FileToChart_groupRow\<close> is the body of the
  \<open>forEach\<close> over the first 1000 rows; an absent or empty \<open>seriesCol\<close> is \<open>''''\<close>.
\<close>

definition FileToChart_isNumericValue :: "jsobj list \<Rightarrow> string \<Rightarrow> bool" where
  "FileToChart_isNumericValue data valueCol = list_ex (\<lambda>row. isNumber (objGet row valueCol)) data"

definition FileToChart_groupRow ::
  "bool \<Rightarrow> string \<Rightarrow> string \<Rightarrow> string \<Rightarrow>
   (string \<times> (string \<times> jsnum) list) list \<Rightarrow> jsobj \<Rightarrow> (string \<times> (string \<times> jsnum) list) list" where
  "FileToChart_groupRow isNumericValue labelCol valueCol seriesCol groupedData row =
     (let label = trim (jsToString (jsOr (objGet row labelCol) (Str ''Unknown'')));
          series = (if seriesCol \<noteq> [] then trim (jsToString (jsOr (objGet row seriesCol) (Str ''Default'')))
                    else ''Default'');
          groupedData1 = (if \<not> mapHas groupedData label then mapSet label [] groupedData
                          else groupedData);
          seriesMap = mapGetList groupedData1 label;
          seriesMap1 =
            (if isNumericValue
             then mapSet series (addNum (getOr0 seriesMap series) (numOr0 (jsToNumber (objGet row valueCol)))) seriesMap
             else mapSet series (addNum (getOr0 seriesMap series) (Fin 1)) seriesMap)
      in mapSet label seriesMap1 groupedData1)"

text \<open>
  The label and the series under which \<open>FileToChart_groupRow\<close> files a row: the
  expressions \<open>String(row[labelCol] || 'Unknown').trim()\<close> and
  \<open>seriesCol ? String(row[seriesCol] || 'Default').trim() : 'Default'\<close> of the loop, on
  their own.
\<close>

definition labelOf :: "string \<Rightarrow> jsobj \<Rightarrow> string" where
  "labelOf labelCol row = trim (jsToString (jsOr (objGet row labelCol) (Str ''Unknown'')))"


definition FileToChart_processDataForChart ::
  "jsobj list \<Rightarrow> string \<Rightarrow> string \<Rightarrow> string \<Rightarrow> ChartData option" where
  "FileToChart_processDataForChart data labelCol valueCol seriesCol =
     (if labelCol = [] \<or> valueCol = [] then None
      else
        (let isNumericValue = FileToChart_isNumericValue data valueCol;
             groupedData = foldl (FileToChart_groupRow isNumericValue labelCol valueCol seriesCol) []
                             (take 1000 data);
             labels = take 50 (map fst groupedData);
             seriesNames = setOrder (concat (map (\<lambda>(l, seriesMap). map fst seriesMap) groupedData))
         in Some \<lparr> labels = labels,
                   datasets =
                     map (\<lambda>seriesName.
                            \<lparr> dsLabel = (if seriesCol \<noteq> [] then seriesName
                                         else if isNumericValue then valueCol @ '' (Sum)''
                                         else valueCol @ '' (Count)''),
                              dsData = map (\<lambda>label. getOr0 (mapGetList groupedData label) seriesName) labels \<rparr>)
                       seriesNames \<rparr>))"

text \<open>The automatic column selection of \<open>handleFileUpload\<close>, for at least two headers.\<close>

definition FileToChart_autoColumns :: "string list \<Rightarrow> jsobj list \<Rightarrow> string \<times> string \<times> string" where
  "FileToChart_autoColumns headers processedData =
     (let numerics = filter (\<lambda>col. list_ex (\<lambda>row. isNumber (objGet row col)) processedData) headers;
          labelCol = headers ! 0;
          valueCol = (if length numerics > 0 then numerics ! 0 else headers ! 1);
          seriesCol = (if length headers > 2 then headers ! 2 else [])
      in (labelCol, valueCol, seriesCol))"

text \<open>
  The page state of FileToChart and \<open>handleFileUpload\<close>. Identifiers, time stamps and
  the timers that dismiss status messages are outside the model.
\<close>

record File =
  fname :: string
  fsize :: nat
  ftype :: string
  ftext :: string

record UploadedFile =
  ufName :: string
  ufType :: string
  ufSize :: nat
  ufData :: "jsobj list"
  ufColumns :: "string list"
  ufRowCount :: nat
  ufPreview :: "jsobj list"

datatype StatusType = success | error | warning | info

record FileToChart_state =
  uploadedFiles :: "UploadedFile list"
  selectedFile :: "UploadedFile option"
  chartData :: "ChartData option"
  selectedColumns :: "string \<times> string \<times> string"
  isLoading :: bool
  statusMessages :: "(string \<times> StatusType) list"

definition addStatusMessage :: "string \<Rightarrow> StatusType \<Rightarrow> FileToChart_state \<Rightarrow> FileToChart_state" where
  "addStatusMessage message ty st = st\<lparr> statusMessages := statusMessages st @ [(message, ty)] \<rparr>"

definition FileToChart_parseUpload :: "host \<Rightarrow> File \<Rightarrow> string + (string list \<times> jsobj list)" where
  "FileToChart_parseUpload H file =
     (let fileExtension = last (splitOn CHR ''.'' (toLowerCase (fname file)))
      in if fileExtension = ''csv'' \<or> fileExtension = ''tsv'' then FileProcessor_processCSV H (ftext file)
         else if fileExtension = ''json'' \<or> fileExtension = ''jsonl'' then FileProcessor_processJSON H (ftext file)
         else Inl (''Unsupported file format: '' @ [CHR 0x22] @ ''.'' @ fileExtension @ [CHR 0x22] @
                   ''. Supported formats are CSV, JSON, and TSV.''))"

definition FileToChart_uploadFailed :: "string \<Rightarrow> FileToChart_state \<Rightarrow> FileToChart_state" where
  "FileToChart_uploadFailed message st =
     (addStatusMessage message error st)
       \<lparr> selectedFile := None, chartData := None, selectedColumns := ([], [], []), isLoading := False \<rparr>"

definition FileToChart_uploadLoaded ::
  "File \<Rightarrow> string list \<Rightarrow> jsobj list \<Rightarrow> FileToChart_state \<Rightarrow> FileToChart_state" where
  "FileToChart_uploadLoaded file headers processedData st =
     (let uploadedFile =
            \<lparr> ufName = fname file,
              ufType = (if ftype file \<noteq> [] then ftype file
                        else ''application/'' @ last (splitOn CHR ''.'' (toLowerCase (fname file)))),
              ufSize = fsize file, ufData = processedData, ufColumns = headers,
              ufRowCount = length processedData, ufPreview = take 5 processedData \<rparr>;
          st1 = st\<lparr> uploadedFiles := uploadedFile # take 9 (uploadedFiles st),
                    selectedFile := Some uploadedFile \<rparr>;
          st2 =
            (if length headers \<ge> 2 then
               (let (labelCol, valueCol, seriesCol) = FileToChart_autoColumns headers processedData;
                    st' = st1\<lparr> selectedColumns := (labelCol, valueCol, seriesCol) \<rparr>
                in case FileToChart_processDataForChart processedData labelCol valueCol seriesCol of
                     None \<Rightarrow> addStatusMessage ''Missing label or value column for chart data processing.'' warning st'
                   | Some newChartData \<Rightarrow> st'\<lparr> chartData := Some newChartData \<rparr>)
             else
               (addStatusMessage
                  ''File contains insufficient columns for automatic chart generation. Please select columns manually.''
                  warning st1)
                 \<lparr> selectedColumns := ([], [], []), chartData := None \<rparr>)
      in (addStatusMessage
            (''Successfully loaded '' @ intToDigits (int (length processedData)) @ '' records with '' @
             intToDigits (int (length headers)) @ '' columns from '' @ [CHR 0x22] @ fname file @ [CHR 0x22] @ ''.'')
            success st2)
           \<lparr> isLoading := False \<rparr>)"

definition FileToChart_handleFileUpload ::
  "host \<Rightarrow> File option \<Rightarrow> FileToChart_state \<Rightarrow> FileToChart_state" where
  "FileToChart_handleFileUpload H fileOpt st =
     (case fileOpt of
        None \<Rightarrow> st
      | Some file \<Rightarrow>
          if fsize file > 10 * 1024 * 1024
          then addStatusMessage ''File size exceeds the limit of 10MB.'' error st
          else
            (let st1 = addStatusMessage (''Processing '' @ [CHR 0x22] @ fname file @ [CHR 0x22] @ ''...'') info (st\<lparr> isLoading := True \<rparr>)
             in case FileToChart_parseUpload H file of
                  Inl message \<Rightarrow> FileToChart_uploadFailed message st1
                | Inr (headers, processedData) \<Rightarrow>
                    if length processedData = 0
                    then FileToChart_uploadFailed ''No valid data records found in the file after processing.'' st1
                    else FileToChart_uploadLoaded file headers processedData st1))"

section \<open>AnimateChart: parsing, column selection and aggregation\<close>

text \<open>\<open>parseCSVLine\<close> (AnimateChart.tsx): every double quote toggles \<open>inQuotes\<close>.\<close>

fun AnimateChart_parseCSVLine_loop ::
  "string \<Rightarrow> string \<Rightarrow> bool \<Rightarrow> string list \<Rightarrow> string list" where
  "AnimateChart_parseCSVLine_loop [] current inQuotes result = result @ [trim current]"
| "AnimateChart_parseCSVLine_loop (char # rest) current inQuotes result =
     (if char = CHR 0x22 then AnimateChart_parseCSVLine_loop rest current (\<not> inQuotes) result
      else if char = CHR '','' \<and> \<not> inQuotes then
        AnimateChart_parseCSVLine_loop rest [] inQuotes (result @ [trim current])
      else AnimateChart_parseCSVLine_loop rest (current @ [char]) inQuotes result)"

definition AnimateChart_parseCSVLine :: "string \<Rightarrow> string list" where
  "AnimateChart_parseCSVLine line = AnimateChart_parseCSVLine_loop line [] False []"

text \<open>
  \<open>parseCSV\<close> (AnimateChart.tsx). \<open>AnimateChart_csvRecord\<close> is the body of the loop over
  the data lines; a cell is \<open>values[index] || ''\<close>.
\<close>

definition AnimateChart_csvRow :: "string list \<Rightarrow> string list \<Rightarrow> jsobj" where
  "AnimateChart_csvRow headers values =
     fst (foldl (\<lambda>row (index, header).
                   assignProp row header (Str (if index < length values then values ! index else [])))
            newRow (enumerate 0 headers))"

definition AnimateChart_csvRecord :: "string list \<Rightarrow> string list \<Rightarrow> jsobj option" where
  "AnimateChart_csvRecord headers values =
     (if length values = 0 then None else Some (AnimateChart_csvRow headers values))"

definition AnimateChart_parseCSV :: "string \<Rightarrow> string + jsobj list" where
  "AnimateChart_parseCSV csv =
     (let lines = filter (\<lambda>line. trim line \<noteq> []) (splitOn CHR 0x0A (trim csv))
      in if length lines < 2
         then Inl ''CSV file must have at least a header and one data row''
         else
           (let headers = AnimateChart_parseCSVLine (lines ! 0)
            in Inr (List.map_filter
                      (\<lambda>line. AnimateChart_csvRecord headers (AnimateChart_parseCSVLine line))
                      (tl lines))))"

text \<open>
  The test \<open>!isNaN(parseFloat(testValue)) && isFinite(testValue)\<close> of the value-column
  search, and the search itself: the first column other than the label column whose
  value in the first row passes the test, \<open>''''\<close> when there is none.
\<close>

definition looksNumeric :: "jsval \<Rightarrow> bool" where
  "looksNumeric testValue =
     (\<not> isNaN (parseFloat (jsToString testValue)) \<and> isFiniteNum (jsToNumber testValue))"

fun findValueColumn :: "jsobj \<Rightarrow> string \<Rightarrow> string list \<Rightarrow> string" where
  "findValueColumn firstRow labelColumn [] = []"
| "findValueColumn firstRow labelColumn (col # cols) =
     (if col \<noteq> labelColumn \<and> looksNumeric (objGet firstRow col) then col
      else findValueColumn firstRow labelColumn cols)"

text \<open>
  The column selection at the head of \<open>processDataForChart\<close> (AnimateChart.tsx), for
  data with a first row of at least two columns: the label and the value column.
\<close>

definition AnimateChart_chooseColumns :: "string \<Rightarrow> string \<Rightarrow> jsobj \<Rightarrow> string \<times> string" where
  "AnimateChart_chooseColumns selectedLabelColumn selectedValueColumn firstRow =
     (let columns = objKeys firstRow;
          labelColumn = (if selectedLabelColumn \<noteq> [] then selectedLabelColumn else columns ! 0);
          valueColumn = selectedValueColumn;
          valueColumn1 = (if valueColumn = [] then findValueColumn firstRow labelColumn columns
                          else valueColumn);
          valueColumn2 = (if valueColumn1 = [] then columns ! 1 else valueColumn1)
      in (labelColumn, valueColumn2))"

text \<open>The column selection of \<open>loadSheetData\<close>, for a sheet with at least two columns.\<close>

definition AnimateChart_sheetColumns :: "jsobj \<Rightarrow> string \<times> string" where
  "AnimateChart_sheetColumns firstRow =
     (let columns = objKeys firstRow;
          valueCol = findValueColumn firstRow (columns ! 0) columns;
          valueCol1 = (if valueCol = [] then columns ! 1 else valueCol)
      in (columns ! 0, valueCol1))"

text \<open>
  The number read from a cell: \<open>parseFloat\<close>, else the first run of characters matching
  \<open>/[\d.,-]+/\<close> with its commas removed, else the default of the call site.
\<close>

definition numRunRx :: rx where
  "numRunRx = Grp 0 (Plus (COneOf ''0123456789.,-''))"

definition cellNumber :: "jsnum \<Rightarrow> jsval \<Rightarrow> jsnum" where
  "cellNumber dflt cell =
     (let val = parseFloat (jsToString cell)
      in if isNaN val then
           (case rxSearch numRunRx (jsToString cell) of
              Some numMatch \<Rightarrow>
                (case group numMatch 0 of
                   Some m \<Rightarrow> parseFloat (filter (\<lambda>c. c \<noteq> CHR '','') m)
                 | None \<Rightarrow> dflt)
            | None \<Rightarrow> dflt)
         else val)"

definition itemLabel :: "nat \<Rightarrow> string" where
  "itemLabel index = ''Item '' @ intToDigits (int index + 1)"

definition rowLabel :: "string \<Rightarrow> nat \<Rightarrow> jsobj \<Rightarrow> string" where
  "rowLabel labelColumn index row =
     trim (jsToString (jsOr (objGet row labelColumn) (Str (itemLabel index))))"

text \<open>
  \<open>xs.sort(([,a], [,b]) => b - a)\<close>: stable, descending by value. Pairs whose
  difference is not positive (equal values, NaN) keep their order.
\<close>

definition numGreater :: "jsnum \<Rightarrow> jsnum \<Rightarrow> bool" where
  "numGreater b a = (case addNum b (negNum a) of PosInf \<Rightarrow> True | Fin q \<Rightarrow> q > 0 | _ \<Rightarrow> False)"

fun insertDesc :: "string \<times> jsnum \<Rightarrow> (string \<times> jsnum) list \<Rightarrow> (string \<times> jsnum) list" where
  "insertDesc x [] = [x]"
| "insertDesc x (y # ys) = (if numGreater (snd y) (snd x) then y # insertDesc x ys else x # y # ys)"

definition sortDesc :: "(string \<times> jsnum) list \<Rightarrow> (string \<times> jsnum) list" where
  "sortDesc xs = foldr insertDesc xs []"

text \<open>
  \<open>processDataForChart\<close> (AnimateChart.tsx) on rows that are objects: the grouping loop
  over the rows with their indices, and the whole function.
\<close>

definition AnimateChart_sumRow ::
  "string \<Rightarrow> string \<Rightarrow> (string \<times> jsnum) list \<Rightarrow> nat \<times> jsobj \<Rightarrow> (string \<times> jsnum) list" where
  "AnimateChart_sumRow labelColumn valueColumn dataMap ir =
     (case ir of (index, row) \<Rightarrow>
        if index \<ge> 1000 then dataMap
        else
          (let val = cellNumber (Fin 1) (objGet row valueColumn);
               labelKey = rowLabel labelColumn index row
           in if mapHas dataMap labelKey
              then mapSet labelKey (addNum (the (map_of dataMap labelKey)) val) dataMap
              else mapSet labelKey val dataMap))"

definition AnimateChart_processDataForChart ::
  "string \<Rightarrow> string \<Rightarrow> jsobj list \<Rightarrow> string + ChartData" where
  "AnimateChart_processDataForChart selectedLabelColumn selectedValueColumn data =
     (if length data = 0 then Inl ''No data to process''
      else if length (objKeys (data ! 0)) < 2 then Inl ''Data must have at least 2 columns''
      else
        (let (labelColumn, valueColumn) =
               AnimateChart_chooseColumns selectedLabelColumn selectedValueColumn (data ! 0);
             dataMap = foldl (AnimateChart_sumRow labelColumn valueColumn) [] (enumerate 0 data);
             uniqueEntries = take 30 dataMap
         in Inr \<lparr> labels = map fst uniqueEntries,
                  datasets = [\<lparr> dsLabel = (if valueColumn \<noteq> [] then valueColumn else ''Values''),
                                 dsData = map snd uniqueEntries \<rparr>] \<rparr>))"

text \<open>\<open>processSelectedColumns\<close>: the numeric and the categorical branch.\<close>

definition AnimateChart_isNumericColumn :: "jsobj list \<Rightarrow> string \<Rightarrow> bool" where
  "AnimateChart_isNumericColumn data dataColumn =
     list_ex (\<lambda>val. \<not> isNaN (parseFloat (jsToString val)) \<and> isFiniteNum (parseFloat (jsToString val)))
       (map (\<lambda>row. objGet row dataColumn) (take 20 data))"

definition AnimateChart_groupValue ::
  "string \<Rightarrow> string \<Rightarrow> (string \<times> jsnum list) list \<Rightarrow> nat \<times> jsobj \<Rightarrow> (string \<times> jsnum list) list" where
  "AnimateChart_groupValue labelColumn dataColumn dataMap ir =
     (case ir of (index, row) \<Rightarrow>
        if index \<ge> 1000 then dataMap
        else
          (let label = rowLabel labelColumn index row;
               val = cellNumber (Fin 0) (objGet row dataColumn)
           in if mapHas dataMap label
              then mapSet label (mapGetList dataMap label @ [val]) dataMap
              else mapSet label [val] dataMap))"

definition AnimateChart_countValue ::
  "string \<Rightarrow> string \<Rightarrow> (string \<times> (string \<times> jsnum) list) list \<Rightarrow> nat \<times> jsobj \<Rightarrow>
   (string \<times> (string \<times> jsnum) list) list" where
  "AnimateChart_countValue labelColumn dataColumn labelValueMap ir =
     (case ir of (index, row) \<Rightarrow>
        if index \<ge> 1000 then labelValueMap
        else
          (let label = rowLabel labelColumn index row;
               dataValue = trim (jsToString (jsOr (objGet row dataColumn) (Str ''Unknown'')));
               labelValueMap1 = (if \<not> mapHas labelValueMap label then mapSet label [] labelValueMap
                                 else labelValueMap);
               valueMap = mapGetList labelValueMap1 label;
               valueMap1 = (if mapHas valueMap dataValue
                            then mapSet dataValue (addNum (the (map_of valueMap dataValue)) (Fin 1)) valueMap
                            else mapSet dataValue (Fin 1) valueMap)
           in mapSet label valueMap1 labelValueMap1))"

definition sumNums :: "jsnum list \<Rightarrow> jsnum" where
  "sumNums vals = foldl addNum (Fin 0) vals"

definition AnimateChart_processSelectedColumns :: "jsobj list \<Rightarrow> string \<Rightarrow> string \<Rightarrow> ChartData" where
  "AnimateChart_processSelectedColumns data labelColumn dataColumn =
     (if AnimateChart_isNumericColumn data dataColumn then
        (let dataMap = foldl (AnimateChart_groupValue labelColumn dataColumn) [] (enumerate 0 data);
             aggregatedData = map (\<lambda>(label, vals). (label, sumNums vals)) dataMap;
             sortedEntries = take 30 (sortDesc aggregatedData)
         in \<lparr> labels = map fst sortedEntries,
              datasets = [\<lparr> dsLabel = ''Sum of '' @ dataColumn @ '' by '' @ labelColumn,
                             dsData = map snd sortedEntries \<rparr>] \<rparr>)
      else
        (let labelValueMap = foldl (AnimateChart_countValue labelColumn dataColumn) [] (enumerate 0 data);
             labelCounts = map (\<lambda>(label, valueMap). (label, sumNums (map snd valueMap))) labelValueMap;
             sortedEntries = take 30 (sortDesc labelCounts)
         in \<lparr> labels = map fst sortedEntries,
              datasets = [\<lparr> dsLabel = ''Count of '' @ dataColumn @ '' by '' @ labelColumn,
                             dsData = map snd sortedEntries \<rparr>] \<rparr>))"

section \<open>AnimateChart: the upload handlers\<close>

text \<open>
  The page state touched by an upload. The chart instance on the canvas is outside the
  model. A row of parsed JSON may be any value: \<open>asObject\<close> gives its own enumerable
  properties, and reading a property of a \<open>null\<close> or \<open>undefined\<close> row throws.
\<close>

record AnimateChart_state =
  ac_chartData :: "ChartData option"
  ac_excelWorkbook :: "(string \<times> jsobj list) list option"
  ac_currentSheetData :: "jsval list option"
  ac_isLoading :: bool
  ac_statusMessage :: "(string \<times> string) option"
  ac_selectedLabelColumn :: string
  ac_selectedValueColumn :: string
  ac_showExcelControls :: bool

definition showStatus :: "string \<Rightarrow> string \<Rightarrow> AnimateChart_state \<Rightarrow> AnimateChart_state" where
  "showStatus message ty st = st\<lparr> ac_statusMessage := Some (message, ty) \<rparr>"

definition isNullish :: "jsval \<Rightarrow> bool" where
  "isNullish v = (v = Null \<or> v = Undefined)"

definition asObject :: "jsval \<Rightarrow> jsobj" where
  "asObject v = (case v of
       Obj ps \<Rightarrow> ps
     | Arr vs \<Rightarrow> zip (indexKeys (length vs)) vs
     | Str s \<Rightarrow> zip (indexKeys (length s)) (map (\<lambda>c. Str [c]) s)
     | _ \<Rightarrow> [])"

text \<open>
  \<open>processStandardData\<close>: the new state and the message of the exception it ends with,
  if any. With fewer than two columns it calls \<open>processDataForChart\<close>, which throws.
\<close>

definition AnimateChart_processStandardData ::
  "host \<Rightarrow> jsval list \<Rightarrow> AnimateChart_state \<Rightarrow> AnimateChart_state \<times> string option" where
  "AnimateChart_processStandardData H data st =
     (if length data > 0 then
        (let st1 = st\<lparr> ac_currentSheetData := Some data \<rparr>
         in if isNullish (data ! 0) then (st1, Some (nullAccessMessage H []))
            else
              (let columns = objKeys (asObject (data ! 0))
               in if length columns \<ge> 2 then
                    (let labelCol = columns ! 0;
                         dataCol = (case filter (\<lambda>col. col \<noteq> labelCol) columns of
                                      [] \<Rightarrow> columns ! 1
                                    | col # cols \<Rightarrow> if col = [] then columns ! 1 else col);
                         st2 = st1\<lparr> ac_selectedLabelColumn := labelCol,
                                     ac_selectedValueColumn := dataCol \<rparr>
                     in if list_ex isNullish (take 1000 data)
                        then (st2, Some (nullAccessMessage H dataCol))
                        else
                          (let processedData =
                                 AnimateChart_processSelectedColumns (map asObject data) labelCol dataCol
                           in ((showStatus
                                  (''File uploaded successfully! '' @ intToDigits (int (length data)) @
                                   '' records loaded.'') ''success''
                                  (st2\<lparr> ac_chartData := Some processedData \<rparr>))
                                 \<lparr> ac_isLoading := False \<rparr>, None)))
                  else (st1, Some ''Data must have at least 2 columns'')))
      else (st, Some ''No valid data found in file''))"

text \<open>
  \<open>loadSheetData\<close> on the rows of the chosen sheet, as the spreadsheet library returns
  them (the parameter \<open>xlsxSheets\<close> of \<open>handleFile\<close> stands for that library).
\<close>

definition AnimateChart_loadSheetData ::
  "string \<Rightarrow> jsobj list \<Rightarrow> AnimateChart_state \<Rightarrow> AnimateChart_state" where
  "AnimateChart_loadSheetData sheetName sheetData st =
     (if length sheetData = 0 then showStatus ''Selected sheet is empty'' ''warning'' st
      else
        (let st1 = st\<lparr> ac_currentSheetData := Some (map Obj sheetData) \<rparr>;
             columns = objKeys (sheetData ! 0);
             st2 =
               (if length columns \<ge> 2 then
                  (let (labelCol, valueCol) = AnimateChart_sheetColumns (sheetData ! 0)
                   in st1\<lparr> ac_selectedLabelColumn := labelCol,
                            ac_selectedValueColumn := valueCol,
                            ac_chartData := Some (AnimateChart_processSelectedColumns sheetData labelCol valueCol) \<rparr>)
                else st1)
         in showStatus
              (''Sheet '' @ [CHR 0x22] @ sheetName @ [CHR 0x22] @ '' loaded with '' @
               intToDigits (int (length sheetData)) @ '' rows and '' @
               intToDigits (int (length columns)) @ '' columns.'') ''success'' st2))"

definition AnimateChart_processExcelFile ::
  "(string \<Rightarrow> string + (string \<times> jsobj list) list) \<Rightarrow> string \<Rightarrow> AnimateChart_state \<Rightarrow> AnimateChart_state" where
  "AnimateChart_processExcelFile xlsxSheets content st =
     (case xlsxSheets content of
        Inl message \<Rightarrow>
          (showStatus (''Error processing Excel file: '' @ message) ''error'' st)\<lparr> ac_isLoading := False \<rparr>
      | Inr sheets \<Rightarrow>
          (let st1 = st\<lparr> ac_excelWorkbook := Some sheets, ac_showExcelControls := True \<rparr>;
               st2 = (showStatus
                        (''Excel file loaded! Found '' @ intToDigits (int (length sheets)) @
                         '' sheet(s). Please select a sheet to continue.'') ''success'' st1)
                       \<lparr> ac_isLoading := False \<rparr>
           in if length sheets = 1
              then AnimateChart_loadSheetData (fst (sheets ! 0)) (snd (sheets ! 0)) st2
              else st2))"

text \<open>\<open>parseFileData\<close>: the exceptions of the parsers end in an error status.\<close>

definition AnimateChart_parseError :: "string \<Rightarrow> AnimateChart_state \<Rightarrow> AnimateChart_state" where
  "AnimateChart_parseError message st =
     (showStatus (''Error parsing file: '' @ message) ''error'' st)\<lparr> ac_isLoading := False \<rparr>"

definition AnimateChart_finish ::
  "AnimateChart_state \<times> string option \<Rightarrow> AnimateChart_state" where
  "AnimateChart_finish r = (case r of (st, None) \<Rightarrow> st | (st, Some message) \<Rightarrow> AnimateChart_parseError message st)"

definition AnimateChart_parseFileData ::
  "host \<Rightarrow> (string \<Rightarrow> string + (string \<times> jsobj list) list) \<Rightarrow> string \<Rightarrow> string \<Rightarrow>
   AnimateChart_state \<Rightarrow> AnimateChart_state" where
  "AnimateChart_parseFileData H xlsxSheets content filename st =
     (if endsWith (toLowerCase filename) ''.csv'' then
        (case AnimateChart_parseCSV content of
           Inl message \<Rightarrow> AnimateChart_parseError message st
         | Inr data \<Rightarrow> AnimateChart_finish (AnimateChart_processStandardData H (map Obj data) st))
      else if endsWith (toLowerCase filename) ''.json'' then
        (case jsonParse H content of
           Inl message \<Rightarrow> AnimateChart_parseError message st
         | Inr parsed \<Rightarrow>
             (case parsed of
                Arr items \<Rightarrow> AnimateChart_finish (AnimateChart_processStandardData H items st)
              | _ \<Rightarrow>
                  if isNullish parsed then AnimateChart_parseError (nullAccessMessage H []) st
                  else
                    (case asObject parsed of
                       (k, Arr items) # ps \<Rightarrow>
                         AnimateChart_finish (AnimateChart_processStandardData H items st)
                     | _ \<Rightarrow> AnimateChart_finish (AnimateChart_processStandardData H [parsed] st))))
      else if endsWith (toLowerCase filename) ''.xlsx'' \<or> endsWith (toLowerCase filename) ''.xls''
        then AnimateChart_processExcelFile xlsxSheets content st
      else st)"

text \<open>\<open>handleFile\<close>, reached from the file picker and from drag and drop.\<close>

definition AnimateChart_handleFile ::
  "host \<Rightarrow> (string \<Rightarrow> string + (string \<times> jsobj list) list) \<Rightarrow> File \<Rightarrow>
   AnimateChart_state \<Rightarrow> AnimateChart_state" where
  "AnimateChart_handleFile H xlsxSheets file st =
     (let st1 = showStatus (''Processing file: '' @ fname file) ''warning'' (st\<lparr> ac_isLoading := True \<rparr>)
      in if endsWith (toLowerCase (fname file)) ''.csv''
            \<or> endsWith (toLowerCase (fname file)) ''.json''
            \<or> endsWith (toLowerCase (fname file)) ''.xlsx''
            \<or> endsWith (toLowerCase (fname file)) ''.xls''
         then AnimateChart_parseFileData H xlsxSheets (ftext file) (fname file) st1
         else (showStatus ''Unsupported file type. Please use CSV, Excel, or JSON files.'' ''error'' st1)
                \<lparr> ac_isLoading := False \<rparr>)"

section \<open>The ER diagram generator: parseTextToER\<close>

record ERAttribute =
  attrName :: string
  attrType :: string
  isPrimaryKey :: bool
  isForeignKey :: bool

record EREntity =
  entId :: string
  entName :: string
  attributes :: "ERAttribute list"
  entX :: int
  entY :: int

record ERRelationship =
  relId :: string
  fromEntity :: string
  toEntity :: string
  relType :: string
  relLabel :: string

record ERResult =
  entities :: "EREntity list"
  relationships :: "ERRelationship list"
  mermaidCode :: string

text \<open>The pattern \<open>/(\w+)\s*table\s*(?:\((.*)\))?/\<close> of a table definition.\<close>

definition tableRx :: rx where
  "tableRx =
     seqs [Grp 1 (Plus CWord), Star CSpace, Lit ''table'', Star CSpace,
           Opt (seqs [Lit ''('', Grp 2 (Star CAny), Lit '')''])]"

text \<open>
  The pattern of an explicit relationship,
  \<open>/(\w+)\s+(?:enrolls in|teach|schedule|provide|work in|offer|place|contain|write|belong to)\s+(\w+)\s+\((\w+)-to-(\w+)\s+relationship\s+called\s+'([^']+)'\)/\<close>.
\<close>

definition explicitRelationshipRx :: rx where
  "explicitRelationshipRx =
     seqs [Grp 1 (Plus CWord), Plus CSpace,
           alts [Lit ''enrolls in'', Lit ''teach'', Lit ''schedule'', Lit ''provide'', Lit ''work in'',
                 Lit ''offer'', Lit ''place'', Lit ''contain'', Lit ''write'', Lit ''belong to''],
           Plus CSpace, Grp 2 (Plus CWord), Plus CSpace, Lit ''('',
           Grp 3 (Plus CWord), Lit ''-to-'', Grp 4 (Plus CWord), Plus CSpace,
           Lit ''relationship'', Plus CSpace, Lit ''called'', Plus CSpace, Lit [CHR 0x27],
           Grp 5 (Plus (CNotChr (CHR 0x27))), Lit [CHR 0x27], Lit '')'']"

text \<open>Phase 1: the type and the key flags of an attribute, from its name.\<close>

definition inferAttrType :: "string \<Rightarrow> string" where
  "inferAttrType attr =
     (if includesStr attr ''id'' then ''int''
      else if includesStr attr ''date'' \<or> includesStr attr ''time'' then ''date''
      else if includesStr attr ''price'' \<or> includesStr attr ''amount'' \<or> includesStr attr ''budget''
        then ''decimal''
      else if includesStr attr ''count'' \<or> includesStr attr ''quantity'' \<or> includesStr attr ''stock''
              \<or> includesStr attr ''rating'' then ''int''
      else if includesStr attr ''email'' then ''varchar(255)''
      else if includesStr attr ''phone'' then ''varchar(20)''
      else if includesStr attr ''address'' then ''text''
      else if includesStr attr ''status'' then ''enum''
      else ''string'')"

definition makeAttribute :: "string \<Rightarrow> ERAttribute" where
  "makeAttribute attr =
     (let isKey = (endsWith attr ''id'' \<and> \<not> includesStr attr ''_id'');
          isForeignKey = (includesStr attr ''_id'' \<and> attr \<noteq> ''id'')
      in \<lparr> attrName = replaceAllChar (CHR '' '') (CHR ''_'') attr,
           attrType = inferAttrType attr,
           isPrimaryKey = isKey,
           isForeignKey = isForeignKey \<rparr>)"

text \<open>
  The body of the first \<open>forEach\<close> over the lines: a line that matches the table
  pattern (re)defines its entity, with the non-empty attributes between the parentheses.
\<close>

definition parseEntityLine :: "(string \<times> EREntity) list \<Rightarrow> string \<Rightarrow> (string \<times> EREntity) list" where
  "parseEntityLine entityMap line =
     (case rxSearch tableRx (trim line) of
        None \<Rightarrow> entityMap
      | Some tableMatch \<Rightarrow>
          (let currentEntityName = toLowerCase (the (group tableMatch 1));
               attrs = (case group tableMatch 2 of
                          None \<Rightarrow> []
                        | Some attributeString \<Rightarrow>
                            if attributeString = [] then []
                            else map trim (splitOn (CHR '','') attributeString))
           in objSet entityMap currentEntityName
                \<lparr> entId = currentEntityName,
                  entName = replaceAllChar (CHR ''_'') (CHR '' '') (toUpperCase (the (group tableMatch 1))),
                  attributes = map makeAttribute (filter (\<lambda>attr. attr \<noteq> []) attrs),
                  entX = 0, entY = 0 \<rparr>))"

text \<open>Phase 2, priority 1: a line that matches the explicit pattern.\<close>

definition hasEntity :: "(string \<times> EREntity) list \<Rightarrow> string \<Rightarrow> bool" where
  "hasEntity entityMap name = mapHas entityMap name"

definition explicitRelationship ::
  "(string \<times> EREntity) list \<Rightarrow> captures \<Rightarrow> ERRelationship list \<Rightarrow> ERRelationship list" where
  "explicitRelationship entityMap m relationshipList =
     (let fromE = toLowerCase (the (group m 1));
          toE = toLowerCase (the (group m 2));
          cardinality1 = the (group m 3);
          cardinality2 = the (group m 4);
          relationshipLabel = the (group m 5)
      in if hasEntity entityMap fromE \<and> hasEntity entityMap toE then
           (let ty = (if cardinality1 = ''many'' \<and> cardinality2 = ''many'' then ''many-to-many''
                      else if cardinality1 = ''one'' \<and> cardinality2 = ''one'' then ''one-to-one''
                      else ''one-to-many'');
                existingRel =
                  list_ex (\<lambda>r. (fromEntity r = fromE \<and> toEntity r = toE) \<or>
                                (fromEntity r = toE \<and> toEntity r = fromE \<and> relType r = ty))
                    relationshipList
            in if \<not> existingRel
               then relationshipList @
                      [\<lparr> relId = fromE @ ''-'' @ toE @ ''-'' @
                                   replaceAllChar (CHR '' '') (CHR ''_'') relationshipLabel,
                         fromEntity = fromE, toEntity = toE, relType = ty,
                         relLabel = replaceAllChar (CHR ''_'') (CHR '' '') relationshipLabel \<rparr>]
               else relationshipList)
         else relationshipList)"

text \<open>Phase 2, priority 2: the keywords, and the type and label they give a line.\<close>

definition relationshipKeywords :: "string list" where
  "relationshipKeywords =
     [''have'', ''belong'', ''can'', ''many-to-many'', ''one-to-many'', ''place'',
      ''contain'', ''write'', ''schedule'', ''provide'', ''work'', ''teach'',
      ''enroll'', ''offer'', ''employs'', ''offers'', ''schedules'', ''provides'', ''works_in'']"

definition inferredTypeLabel :: "string \<Rightarrow> string \<times> string" where
  "inferredTypeLabel trimmedLine =
     (let (ty, label) =
            (if includesStr trimmedLine ''many-to-many'' then (''many-to-many'', ''relates to'')
             else if includesStr trimmedLine ''one-to-many'' \<or> includesStr trimmedLine ''have many''
                     \<or> includesStr trimmedLine ''has many'' then (''one-to-many'', ''has'')
             else if includesStr trimmedLine ''one-to-one'' then (''one-to-one'', ''is related to'')
             else (''one-to-many'', ''relates to''))
      in if includesStr trimmedLine ''enroll'' then (''many-to-many'', ''enrolls in'')
         else if includesStr trimmedLine ''teach'' then (''one-to-many'', ''teaches'')
         else if includesStr trimmedLine ''place'' then (''one-to-many'', ''places'')
         else if includesStr trimmedLine ''contain'' then (''many-to-many'', ''contains'')
         else if includesStr trimmedLine ''write'' then (''many-to-many'', ''writes'')
         else if includesStr trimmedLine ''schedule'' then (''many-to-many'', ''schedules'')
         else if includesStr trimmedLine ''provide'' then (''many-to-many'', ''provides'')
         else if includesStr trimmedLine ''work'' then (''many-to-one'', ''works in'')
         else if includesStr trimmedLine ''offer'' then (''one-to-many'', ''offers'')
         else if includesStr trimmedLine ''employs'' then (''one-to-many'', ''employs'')
         else if includesStr trimmedLine ''belongs_to'' \<or> includesStr trimmedLine ''belong to''
           then (''many-to-one'', ''belongs to'')
         else (ty, label))"

definition implicitPair ::
  "string \<Rightarrow> nat \<Rightarrow> string \<Rightarrow> ERRelationship list \<Rightarrow> string \<Rightarrow> ERRelationship list" where
  "implicitPair trimmedLine index entity1 relationshipList entity2 =
     (if entity1 \<noteq> entity2 \<and> includesStr trimmedLine entity1 \<and> includesStr trimmedLine entity2 then
        (let (ty, label) = inferredTypeLabel trimmedLine;
             existingRel =
               list_ex (\<lambda>r. (fromEntity r = entity1 \<and> toEntity r = entity2 \<and> relType r = ty) \<or>
                             (fromEntity r = entity2 \<and> toEntity r = entity1 \<and> relType r = ty))
                 relationshipList
         in if \<not> existingRel
            then relationshipList @
                   [\<lparr> relId = entity1 @ ''-'' @ entity2 @ ''-'' @ intToDigits (int index),
                      fromEntity = entity1, toEntity = entity2, relType = ty, relLabel = label \<rparr>]
            else relationshipList)
      else relationshipList)"

definition implicitRelationships ::
  "string list \<Rightarrow> string \<Rightarrow> nat \<Rightarrow> ERRelationship list \<Rightarrow> ERRelationship list" where
  "implicitRelationships entityNames trimmedLine index relationshipList =
     (if list_ex (\<lambda>keyword. includesStr trimmedLine keyword) relationshipKeywords then
        foldl (\<lambda>rels entity1. foldl (implicitPair trimmedLine index entity1) rels entityNames)
          relationshipList entityNames
      else relationshipList)"

text \<open>The body of the second \<open>forEach\<close>, over the lines with their indices.\<close>

definition parseRelationshipLine ::
  "(string \<times> EREntity) list \<Rightarrow> ERRelationship list \<Rightarrow> nat \<times> string \<Rightarrow> ERRelationship list" where
  "parseRelationshipLine entityMap relationshipList il =
     (case il of (index, line) \<Rightarrow>
        (case rxSearch explicitRelationshipRx (trim line) of
           Some m \<Rightarrow> explicitRelationship entityMap m relationshipList
         | None \<Rightarrow> implicitRelationships (objKeys entityMap) (trim line) index relationshipList))"

text \<open>
  Phase 3: with no relationship so far, one is inferred from every attribute whose name
  ends in \<open>_id\<close> and names an entity once the first \<open>_id\<close> is removed.
\<close>

fun removeFirst :: "string \<Rightarrow> string \<Rightarrow> string" where
  "removeFirst sub [] = []"
| "removeFirst sub (c # cs) =
     (if startsWith (c # cs) sub then drop (length sub) (c # cs) else c # removeFirst sub cs)"

definition inferFromAttribute ::
  "(string \<times> EREntity) list \<Rightarrow> EREntity \<Rightarrow> ERRelationship list \<Rightarrow> ERAttribute \<Rightarrow> ERRelationship list" where
  "inferFromAttribute entityMap entity relationshipList attr =
     (if endsWith (attrName attr) ''_id'' \<and> attrName attr \<noteq> ''id'' then
        (let foreignEntityName = trim (removeFirst ''_id'' (attrName attr))
         in if hasEntity entityMap foreignEntityName
            then relationshipList @
                   [\<lparr> relId = foreignEntityName @ ''-'' @ entId entity @ ''-fk-infer'',
                      fromEntity = foreignEntityName, toEntity = entId entity,
                      relType = ''one-to-many'', relLabel = ''has'' \<rparr>]
            else relationshipList)
      else relationshipList)"

definition inferForeignKeys ::
  "(string \<times> EREntity) list \<Rightarrow> ERRelationship list \<Rightarrow> ERRelationship list" where
  "inferForeignKeys entityMap relationshipList =
     (if length relationshipList = 0 then
        foldl (\<lambda>rels entity. foldl (inferFromAttribute entityMap entity) rels (attributes entity))
          relationshipList (objValues entityMap)
      else relationshipList)"

text \<open>Phase 4: the Mermaid text.\<close>

definition mermaidName :: "EREntity \<Rightarrow> string" where
  "mermaidName entity = replaceAllChar (CHR '' '') (CHR ''-'') (toUpperCase (entName entity))"

definition mermaidAttribute :: "ERAttribute \<Rightarrow> string" where
  "mermaidAttribute attr =
     (let keyType = (if isPrimaryKey attr then ''PK'' else if isForeignKey attr then ''FK'' else [])
      in ''        '' @ attrType attr @ '' '' @ attrName attr @ '' '' @
         (if keyType \<noteq> [] then [CHR 0x22] @ keyType @ [CHR 0x22] else []) @ [CHR 0x0A])"

definition mermaidEntity :: "EREntity \<Rightarrow> string" where
  "mermaidEntity entity =
     ''    '' @ mermaidName entity @ '' {'' @ [CHR 0x0A] @
     concat (map mermaidAttribute (attributes entity)) @ ''    }'' @ [CHR 0x0A, CHR 0x0A]"

definition mermaidRelationship :: "(string \<times> EREntity) list \<Rightarrow> ERRelationship \<Rightarrow> string" where
  "mermaidRelationship entityMap rel =
     (case (map_of entityMap (fromEntity rel), map_of entityMap (toEntity rel)) of
        (Some e1, Some e2) \<Rightarrow>
          if mermaidName e1 \<noteq> [] \<and> mermaidName e2 \<noteq> [] then
            (let arrow = (if relType rel = ''one-to-one'' then Some '' ||--|| ''
                          else if relType rel = ''one-to-many'' then Some '' ||--o{ ''
                          else if relType rel = ''many-to-many'' then Some '' }o--o{ ''
                          else None)
             in case arrow of
                  None \<Rightarrow> []
                | Some a \<Rightarrow>
                    ''    '' @ mermaidName e1 @ a @ mermaidName e2 @ '' : '' @ [CHR 0x22] @
                    relLabel rel @ [CHR 0x22] @ [CHR 0x0A])
          else []
      | _ \<Rightarrow> [])"

text \<open>
  \<open>parseTextToER\<close>. The lines are those of the lower-cased text that are not blank.
\<close>

definition parseTextToER :: "string \<Rightarrow> ERResult" where
  "parseTextToER text =
     (let lines = filter (\<lambda>line. trim line \<noteq> []) (splitOn CHR 0x0A (toLowerCase text));
          entityMap = foldl parseEntityLine [] lines;
          relationshipList = foldl (parseRelationshipLine entityMap) [] (enumerate 0 lines);
          relationshipList1 = inferForeignKeys entityMap relationshipList
      in \<lparr> entities = objValues entityMap,
           relationships = relationshipList1,
           mermaidCode = ''erDiagram'' @ [CHR 0x0A] @
                         concat (map mermaidEntity (objValues entityMap)) @
                         concat (map (mermaidRelationship entityMap) relationshipList1) \<rparr>)"

section \<open>The ER diagram view: layout and resetViewToFit\<close>

text \<open>
  Coordinates are real numbers; the rounding of binary64 arithmetic is outside the
  model. The running minimum and maximum start at \<open>Infinity\<close> and \<open>-Infinity\<close>, here
  \<open>None\<close>.
\<close>

definition minOpt :: "real option \<Rightarrow> real \<Rightarrow> real option" where
  "minOpt m v = (case m of None \<Rightarrow> Some v | Some a \<Rightarrow> Some (min a v))"

definition maxOpt :: "real option \<Rightarrow> real \<Rightarrow> real option" where
  "maxOpt m v = (case m of None \<Rightarrow> Some v | Some a \<Rightarrow> Some (max a v))"

record Bounds =
  minX :: "real option"
  maxX :: "real option"
  minY :: "real option"
  maxY :: "real option"

definition entityBounds :: "Bounds \<Rightarrow> real \<times> real \<Rightarrow> Bounds" where
  "entityBounds b pos =
     \<lparr> minX = minOpt (minX b) (fst pos - 180), maxX = maxOpt (maxX b) (fst pos + 320),
       minY = minOpt (minY b) (snd pos - 160), maxY = maxOpt (maxY b) (snd pos + 200) \<rparr>"

definition relationshipBounds :: "Bounds \<Rightarrow> real \<times> real \<Rightarrow> Bounds" where
  "relationshipBounds b pos =
     \<lparr> minX = minOpt (minX b) (fst pos - 50), maxX = maxOpt (maxX b) (fst pos + 150),
       minY = minOpt (minY b) (snd pos - 30), maxY = maxOpt (maxY b) (snd pos + 60) \<rparr>"

record View =
  zoom :: real
  panX :: real
  panY :: real

text \<open>
  \<open>resetViewToFit\<close> on the values of the two position maps: \<open>None\<close> when both are empty
  (the function returns without setting anything), else the zoom and pan it sets.
\<close>

definition resetViewToFit ::
  "real \<Rightarrow> real \<Rightarrow> (real \<times> real) list \<Rightarrow> (real \<times> real) list \<Rightarrow> View option" where
  "resetViewToFit containerWidth containerHeight currentEntityPositions currentRelationshipPositions =
     (if length currentEntityPositions = 0 \<and> length currentRelationshipPositions = 0 then None
      else
        (let b0 = \<lparr> minX = None, maxX = None, minY = None, maxY = None \<rparr>;
             b1 = foldl entityBounds b0 currentEntityPositions;
             b = foldl relationshipBounds b1 currentRelationshipPositions;
             padding = 50;
             totalWidth = the (maxX b) - the (minX b) + padding * 2;
             totalHeight = the (maxY b) - the (minY b) + padding * 2;
             zoomX = containerWidth / totalWidth;
             zoomY = containerHeight / totalHeight;
             optimalZoom = min (min zoomX zoomY) 1;
             centerX = (containerWidth - totalWidth * optimalZoom) / 2 - the (minX b) * optimalZoom;
             centerY = (containerHeight - totalHeight * optimalZoom) / 2 - the (minY b) * optimalZoom
         in Some \<lparr> zoom = optimalZoom, panX = centerX, panY = centerY \<rparr>))"

text \<open>
  The group of the diagram is drawn under \<open>translate(pan.x, pan.y) scale(zoom)\<close>: a
  point of the diagram appears on the canvas at \<open>pan + zoom * p\<close>.
\<close>

definition screenX :: "View \<Rightarrow> real \<Rightarrow> real" where
  "screenX v x = panX v + zoom v * x"

definition screenY :: "View \<Rightarrow> real \<Rightarrow> real" where
  "screenY v y = panY v + zoom v * y"

text \<open>
  The layout effect of the diagram: the entities on a grid of at most three columns,
  each relationship near the midpoint of its two entities, then \<open>resetViewToFit\<close> on the
  new positions. With no entity the effect returns at once.
\<close>

definition gridCols :: "nat \<Rightarrow> nat" where
  "gridCols n = min 3 (nat \<lceil>sqrt (real n)\<rceil>)"

definition gridPosition :: "nat \<Rightarrow> nat \<Rightarrow> real \<times> real" where
  "gridPosition cols index =
     (100 + real (index mod cols) * 520, 100 + real (index div cols) * 420)"

definition relationshipPosition :: "real \<times> real \<Rightarrow> real \<times> real \<Rightarrow> real \<times> real" where
  "relationshipPosition fromPos toPos =
     (let midX = (fst fromPos + fst toPos) / 2 + 80;
          midY = (snd fromPos + snd toPos) / 2 + 10
      in (midX - 50, midY - 15))"

definition layoutEntities :: "EREntity list \<Rightarrow> (string \<times> real \<times> real) list" where
  "layoutEntities ents =
     foldl (\<lambda>newEntityPositions (index, entity).
              objSet newEntityPositions (entId entity) (gridPosition (gridCols (length ents)) index))
       [] (enumerate 0 ents)"

definition layoutRelationships ::
  "(string \<times> real \<times> real) list \<Rightarrow> ERRelationship list \<Rightarrow> (string \<times> real \<times> real) list" where
  "layoutRelationships newEntityPositions rels =
     foldl (\<lambda>newRelationshipPositions relationship.
              case (map_of newEntityPositions (fromEntity relationship),
                    map_of newEntityPositions (toEntity relationship)) of
                (Some fromPos, Some toPos) \<Rightarrow>
                  objSet newRelationshipPositions (relId relationship) (relationshipPosition fromPos toPos)
              | _ \<Rightarrow> newRelationshipPositions)
       [] rels"

definition layoutView :: "real \<Rightarrow> real \<Rightarrow> EREntity list \<Rightarrow> ERRelationship list \<Rightarrow> View option" where
  "layoutView containerWidth containerHeight ents rels =
     (if length ents = 0 then None
      else resetViewToFit containerWidth containerHeight
             (objValues (layoutEntities ents))
             (objValues (layoutRelationships (layoutEntities ents) rels)))"

text \<open>An entity all of whose attributes come from \<open>makeAttribute\<close>.\<close>

definition madeByParser :: "EREntity \<Rightarrow> bool" where
  "madeByParser ent = (\<forall>a\<in>set (attributes ent). \<exists>attr. a = makeAttribute attr)"


section \<open>Example inputs\<close>

text \<open>
  A host for running examples: its \<open>Date\<close> constructor yields an invalid date and its
  \<open>JSON.parse\<close> throws, so the examples do not depend on either.
\<close>

definition stubHost :: host where
  "stubHost = \<lparr> newDate = (\<lambda>s. (NaN, [])), jsonParse = (\<lambda>s. Inl ''Unexpected token''),
                 nullAccessMessage = (\<lambda>k. ''Cannot read properties of null'') \<rparr>"

text \<open>The CSV data line \<open>"a,b",2\<close>.\<close>

definition quotedLine :: string where
  "quotedLine = [CHR 0x22] @ ''a,b'' @ [CHR 0x22] @ '',2''"




text \<open>
  A CSV file of 10485767 bytes, above the limit of 10 MB: a header, one data line and
  trailing spaces. The spreadsheet library is not needed by the examples.
\<close>

definition noXlsx :: "string \<Rightarrow> string + (string \<times> jsobj list) list" where
  "noXlsx content = Inl ''Unsupported file''"

definition smallCsv :: string where
  "smallCsv = ''a,b'' @ [CHR 0x0A] @ ''1,2''"

definition oversizedCsv :: File where
  "oversizedCsv = \<lparr> fname = ''data.csv'', fsize = 10485767, ftype = ''text/csv'',
                     ftext = smallCsv @ replicate 10485760 (CHR '' '') \<rparr>"

definition AnimateChart_initial :: AnimateChart_state where
  "AnimateChart_initial =
     \<lparr> ac_chartData = None, ac_excelWorkbook = None, ac_currentSheetData = None,
       ac_isLoading = False, ac_statusMessage = None, ac_selectedLabelColumn = [],
       ac_selectedValueColumn = [], ac_showExcelControls = False \<rparr>"

definition FileToChart_initial :: FileToChart_state where
  "FileToChart_initial =
     \<lparr> uploadedFiles = [], selectedFile = None, chartData = None,
       selectedColumns = ([], [], []), isLoading = False, statusMessages = [] \<rparr>"

text \<open>The description of two tables and one relationship, and a one-table description.\<close>

definition erExampleText :: string where
  "erExampleText =
     ''Students table (student_id, name)'' @ [CHR 0x0A] @
     ''Courses table (course_id, title)'' @ [CHR 0x0A] @
     ''Students enroll in Courses (many-to-many relationship called '' @ [CHR 0x27] @ ''Enrollment'' @
     [CHR 0x27] @ '')''"

definition erSmallText :: string where
  "erSmallText = ''Users table (id, org_id)''"


section \<open>Aggregation, as the specification words it\<close>









text \<open>
  Two lists of 2000 records with the same first 1000: the value column holds text in
  all of the first list, and numbers in the second half of the second list.
\<close>

definition textRow :: jsobj where
  "textRow = [(''k'', Str ''a''), (''v'', Str ''s'')]"

definition numberRow :: jsobj where
  "numberRow = [(''k'', Str ''a''), (''v'', Num (Fin 1))]"

definition allText :: "jsobj list" where
  "allText = replicate 2000 textRow"

definition lateNumbers :: "jsobj list" where
  "lateNumbers = replicate 1000 textRow @ replicate 1000 numberRow"

section \<open>Auxiliary notions of the proofs\<close>




text \<open>
  The step of turning an array into a \<open>Set\<close> and back: an element is appended unless
  it is there already. A grouped table without a series column has distinct labels and
  the one series \<open>Default\<close> under each.
\<close>

definition addOnce :: "'a list \<Rightarrow> 'a \<Rightarrow> 'a list" where
  "addOnce acc x = (if x \<in> set acc then acc else acc @ [x])"


section \<open>Lemmas: maps and objects\<close>

lemma map_of_mapSet: "map_of (mapSet k v m) = (map_of m)(k \<mapsto> v)"
  by (induction m) (auto simp: fun_eq_iff)

lemma length_mapSet: "length (mapSet k v m) = (if mapHas m k then length m else Suc (length m))"
  by (induction m) (auto simp: mapHas_def)

lemma map_fst_mapSet: "map fst (mapSet k v m) = (if mapHas m k then map fst m else map fst m @ [k])"
  by (induction m) (auto simp: mapHas_def)

lemma mapHas_iff: "mapHas m k \<longleftrightarrow> k \<in> fst ` set m"
  by (simp add: mapHas_def map_of_eq_None_iff)

lemma map_of_insertIndexKey: "map_of (insertIndexKey k v ob) = (map_of ob)(k \<mapsto> v)" if "\<not> mapHas ob k"
  using that by (induction ob) (auto simp: fun_eq_iff mapHas_def split: if_splits)

lemma length_insertIndexKey: "length (insertIndexKey k v ob) = Suc (length ob)"
  by (induction ob) auto

lemma set_insertIndexKey: "set (insertIndexKey k v ob) = insert (k, v) (set ob)"
  by (induction ob) (auto split: if_splits)

lemma map_of_objSet: "map_of (objSet ob k v) = (map_of ob)(k \<mapsto> v)"
  by (simp add: objSet_def map_of_mapSet map_of_insertIndexKey)

lemma length_objSet: "length (objSet ob k v) = (if mapHas ob k then length ob else Suc (length ob))"
  by (simp add: objSet_def length_mapSet length_insertIndexKey)

lemma objGet_objSet: "objGet (objSet ob k v) k' = (if k' = k then v else objGet ob k')"
  by (simp add: objGet_def map_of_objSet)

text \<open>
  A row built by assigning the columns in order: a column other than \<open>__proto__\<close> reads
  the value of its last assignment.
\<close>

lemma fst_assignProp: "k \<noteq> ''__proto__'' \<Longrightarrow> fst (assignProp r k v) = objSet (fst r) k v"
  by (cases r) (simp add: assignProp_def)

lemma map_of_assignProp:
  "k' \<noteq> ''__proto__'' \<Longrightarrow> map_of (fst (assignProp r k v)) k' = ((map_of (fst r))(k \<mapsto> v)) k'"
  by (cases r) (auto simp: assignProp_def map_of_objSet)

lemma foldl_assignProp_map_of:
  "k' \<noteq> ''__proto__'' \<Longrightarrow>
   map_of (fst (foldl (\<lambda>r (k, v). assignProp r k v) r kvs)) k' = (map_of (fst r) ++ map_of (rev kvs)) k'"
proof (induction kvs arbitrary: r)
  case Nil
  then show ?case by simp
next
  case (Cons kv kvs)
  obtain k v where kv: "kv = (k, v)" by (cases kv)
  show ?case
    using Cons.prems
    by (simp add: kv Cons.IH [OF Cons.prems] map_of_assignProp map_add_def split: option.splits)
qed

lemma foldl_assignProp_indexed:
  "foldl (\<lambda>r (index, header). assignProp r header (f index)) r ihs =
   foldl (\<lambda>r (k, v). assignProp r k v) r (map (\<lambda>(index, header). (header, f index)) ihs)"
  by (induction ihs arbitrary: r) auto

lemma indexed_row_tail:
  assumes i: "i < length headers"
    and c: "\<forall>j. i \<le> j \<and> j < length headers \<longrightarrow> f j = c"
    and p: "headers ! i \<noteq> ''__proto__''"
  shows "objGet (fst (foldl (\<lambda>r (index, header). assignProp r header (f index)) newRow (enumerate 0 headers)))
           (headers ! i) = c"
proof -
  define kvs where "kvs = map (\<lambda>(index, header). (header, f index)) (enumerate 0 headers)"
  have kvs: "kvs = map (\<lambda>j. (headers ! j, f j)) [0 ..< length headers]"
    unfolding kvs_def by (rule nth_equalityI) (auto simp: nth_enumerate_eq)
  define late where "late = drop i kvs"
  have late: "late = map (\<lambda>j. (headers ! j, f j)) [i ..< length headers]"
    unfolding late_def kvs by (simp add: drop_map)
  have all_c: "v = c" if "(k, v) \<in> set late" for k v
    using that c unfolding late by auto
  have "(headers ! i, f i) \<in> set late"
    unfolding late using i by auto
  then have "headers ! i \<in> fst ` set (rev late)"
    by force
  then obtain v where v: "map_of (rev late) (headers ! i) = Some v"
    by (cases "map_of (rev late) (headers ! i)") (auto simp: map_of_eq_None_iff)
  then have "(headers ! i, v) \<in> set late"
    by (auto dest: map_of_SomeD)
  then have "v = c" by (rule all_c)
  have "rev kvs = rev late @ rev (take i kvs)"
    unfolding late_def by (metis append_take_drop_id rev_append)
  then have "map_of (rev kvs) (headers ! i) = Some c"
    using v \<open>v = c\<close> by (simp add: map_add_def)
  then show ?thesis
    by (simp add: foldl_assignProp_indexed objGet_def foldl_assignProp_map_of [OF p] kvs_def
        map_add_def newRow_def)
qed

lemma FileProcessor_parseValue_empty: "FileProcessor_parseValue H (Str []) = Null"
  by (simp add: FileProcessor_parseValue_def)

lemma csvRow_missing_null:
  assumes "i < length headers" "length values \<le> i" "headers ! i \<noteq> ''__proto__''"
  shows "objGet (FileProcessor_csvRow H headers values) (headers ! i) = Null"
  unfolding FileProcessor_csvRow_def
  by (rule indexed_row_tail[OF assms(1) _ assms(3)])
     (use assms(2) in \<open>auto simp: cellOrEmpty_def FileProcessor_parseValue_empty\<close>)

lemma ac_csvRow_missing_empty:
  assumes "i < length headers" "length values \<le> i" "headers ! i \<noteq> ''__proto__''"
  shows "objGet (AnimateChart_csvRow headers values) (headers ! i) = Str []"
  unfolding AnimateChart_csvRow_def
  by (rule indexed_row_tail[OF assms(1) _ assms(3)]) (use assms(2) in auto)

lemma FileProcessor_parseCSVLine_loop_nonempty:
  "FileProcessor_parseCSVLine_loop line current inQuotes result \<noteq> []"
  by (induction line current inQuotes result rule: FileProcessor_parseCSVLine_loop.induct) auto

lemma AnimateChart_parseCSVLine_loop_nonempty:
  "AnimateChart_parseCSVLine_loop line current inQuotes result \<noteq> []"
  by (induction line current inQuotes result rule: AnimateChart_parseCSVLine_loop.induct) auto

lemma map_filter_all_Some: "(\<And>x. x \<in> set xs \<Longrightarrow> f x = Some (g x)) \<Longrightarrow> List.map_filter f xs = map g xs"
  by (induction xs) auto

section \<open>CSV parsing and value coercion\<close>

lemma parseValue_a_b: "FileProcessor_parseValue H (Str ''a,b'') = Str ''a,b''"
  by code_simp

lemma parseValue_2: "FileProcessor_parseValue H (Str ''2'') = Num (Fin 2)"
  by code_simp

lemma FileProcessor_quotedLine: "FileProcessor_parseCSVLine quotedLine = [''a,b'', ''2'']"
  unfolding quotedLine_def by code_simp

lemma AnimateChart_quotedLine: "AnimateChart_parseCSVLine quotedLine = [''a,b'', ''2'']"
  unfolding quotedLine_def by code_simp

lemma trim_a_b: "trim ''a,b'' = ''a,b''"
  by code_simp

lemma trim_2: "trim ''2'' = ''2''"
  by code_simp

lemma two_column_row:
  assumes "c1 \<noteq> c2" and "c1 \<noteq> ''__proto__''" and "c2 \<noteq> ''__proto__''"
  shows "length (FileProcessor_csvRow H [c1, c2] [''a,b'', ''2'']) = 2
       \<and> objGet (FileProcessor_csvRow H [c1, c2] [''a,b'', ''2'']) c1 = Str ''a,b''
       \<and> objGet (FileProcessor_csvRow H [c1, c2] [''a,b'', ''2'']) c2 = Num (Fin 2)"
  using assms
  by (simp add: FileProcessor_csvRow_def cellOrEmpty_def trim_a_b trim_2 parseValue_a_b parseValue_2
      newRow_def fst_assignProp length_objSet objGet_objSet)
     (simp add: mapHas_def map_of_objSet)

lemma ac_two_column_row:
  assumes "c1 \<noteq> c2" and "c1 \<noteq> ''__proto__''" and "c2 \<noteq> ''__proto__''"
  shows "length (AnimateChart_csvRow [c1, c2] [''a,b'', ''2'']) = 2
       \<and> objGet (AnimateChart_csvRow [c1, c2] [''a,b'', ''2'']) c1 = Str ''a,b''
       \<and> objGet (AnimateChart_csvRow [c1, c2] [''a,b'', ''2'']) c2 = Str ''2''"
  using assms
  by (simp add: AnimateChart_csvRow_def newRow_def fst_assignProp length_objSet objGet_objSet)
     (simp add: mapHas_def map_of_objSet)

text \<open>
  A column named \<open>__proto__\<close> gets no field: the file \<open>__proto__,b\<close> / \<open>1,2\<close> has
  the one-field record \<open>{b: 2}\<close>. A second column of that name does get one when the
  empty cell of the first has made \<open>null\<close> the prototype of the row.
\<close>

lemma proto_header_row:
  "FileProcessor_processCSV H (''__proto__,b'' @ [CHR 0x0A] @ ''1,2'')
     = Inr ([''__proto__'', ''b''], [[(''b'', Num (Fin 2))]])"
  by code_simp

lemma proto_header_twice:
  "FileProcessor_processCSV H (''__proto__,__proto__'' @ [CHR 0x0A] @ '',5'')
     = Inr ([''__proto__'', ''__proto__''], [[(''__proto__'', Num (Fin 5))]])"
  by code_simp

text \<open>
  The claim that the second column is bound to the number 2 fails in AnimateChart: its
  \<open>parseCSV\<close> keeps every field as the string the tokenizer returns, so the record is
  \<open>{col1: "a,b", col2: "2"}\<close>.
\<close>

theorem quoted_field_string_counterexample:
  "AnimateChart_parseCSV (''col1,col2'' @ [CHR 0x0A] @ quotedLine)
     = Inr [[(''col1'', Str ''a,b''), (''col2'', Str ''2'')]]
   \<and> objGet [(''col1'', Str ''a,b''), (''col2'', Str ''2'')] ''col2'' \<noteq> Num (Fin 2)"
  unfolding quotedLine_def by code_simp

text \<open>
  Claim C3, as the code has it. Parsing a CSV whose data line is \<open>"a,b",2\<close> under a
  header of two distinct column names, neither of them \<open>__proto__\<close>, yields one record
  with exactly two fields, not three. The first column is bound to the string \<open>a,b\<close> by
  both parsers; the second column is bound to the number 2 by \<open>FileProcessor.processCSV\<close>
  (FileToChart) and to the string \<open>2\<close> by \<open>parseCSV\<close> (AnimateChart). Both tokenizers
  split the line into the two fields \<open>a,b\<close> and \<open>2\<close>, and under the header
  \<open>col1,col2\<close> the parsers return the single records \<open>{col1: "a,b", col2: 2}\<close> and
  \<open>{col1: "a,b", col2: "2"}\<close>.
\<close>

theorem quoted_field_by_call_site:
  "FileProcessor_processCSV H (''col1,col2'' @ [CHR 0x0A] @ quotedLine)
     = Inr ([''col1'', ''col2''], [[(''col1'', Str ''a,b''), (''col2'', Num (Fin 2))]])
   \<and> AnimateChart_parseCSV (''col1,col2'' @ [CHR 0x0A] @ quotedLine)
     = Inr [[(''col1'', Str ''a,b''), (''col2'', Str ''2'')]]
   \<and> FileProcessor_parseCSVLine quotedLine = [''a,b'', ''2'']
   \<and> AnimateChart_parseCSVLine quotedLine = [''a,b'', ''2'']
   \<and> (\<forall>c1 c2. c1 \<noteq> c2 \<and> c1 \<noteq> ''__proto__'' \<and> c2 \<noteq> ''__proto__'' \<longrightarrow>
         length (FileProcessor_csvRow H [c1, c2] (FileProcessor_parseCSVLine quotedLine)) = 2
       \<and> objGet (FileProcessor_csvRow H [c1, c2] (FileProcessor_parseCSVLine quotedLine)) c1 = Str ''a,b''
       \<and> objGet (FileProcessor_csvRow H [c1, c2] (FileProcessor_parseCSVLine quotedLine)) c2 = Num (Fin 2)
       \<and> length (AnimateChart_csvRow [c1, c2] (AnimateChart_parseCSVLine quotedLine)) = 2
       \<and> objGet (AnimateChart_csvRow [c1, c2] (AnimateChart_parseCSVLine quotedLine)) c1 = Str ''a,b''
       \<and> objGet (AnimateChart_csvRow [c1, c2] (AnimateChart_parseCSVLine quotedLine)) c2 = Str ''2'')"
proof -
  have a: "FileProcessor_processCSV H (''col1,col2'' @ [CHR 0x0A] @ quotedLine)
     = Inr ([''col1'', ''col2''], [[(''col1'', Str ''a,b''), (''col2'', Num (Fin 2))]])"
    unfolding quotedLine_def by code_simp
  have b: "AnimateChart_parseCSV (''col1,col2'' @ [CHR 0x0A] @ quotedLine)
     = Inr [[(''col1'', Str ''a,b''), (''col2'', Str ''2'')]]"
    unfolding quotedLine_def by code_simp
  have c: "\<forall>c1 c2. c1 \<noteq> c2 \<and> c1 \<noteq> ''__proto__'' \<and> c2 \<noteq> ''__proto__'' \<longrightarrow>
         length (FileProcessor_csvRow H [c1, c2] (FileProcessor_parseCSVLine quotedLine)) = 2
       \<and> objGet (FileProcessor_csvRow H [c1, c2] (FileProcessor_parseCSVLine quotedLine)) c1 = Str ''a,b''
       \<and> objGet (FileProcessor_csvRow H [c1, c2] (FileProcessor_parseCSVLine quotedLine)) c2 = Num (Fin 2)
       \<and> length (AnimateChart_csvRow [c1, c2] (AnimateChart_parseCSVLine quotedLine)) = 2
       \<and> objGet (AnimateChart_csvRow [c1, c2] (AnimateChart_parseCSVLine quotedLine)) c1 = Str ''a,b''
       \<and> objGet (AnimateChart_csvRow [c1, c2] (AnimateChart_parseCSVLine quotedLine)) c2 = Str ''2''"
    using two_column_row ac_two_column_row
    by (simp add: FileProcessor_quotedLine AnimateChart_quotedLine)
  show ?thesis
    by (intro conjI a b FileProcessor_quotedLine AnimateChart_quotedLine c)
qed

theorem quoted_field_by_call_site_witness:
  "''label'' \<noteq> ''value'' \<and> ''label'' \<noteq> ''__proto__'' \<and> ''value'' \<noteq> ''__proto__''
   \<and> length (FileProcessor_csvRow stubHost [''label'', ''value''] (FileProcessor_parseCSVLine quotedLine)) = 2
   \<and> objGet (FileProcessor_csvRow stubHost [''label'', ''value''] (FileProcessor_parseCSVLine quotedLine)) ''label''
       = Str ''a,b''
   \<and> objGet (FileProcessor_csvRow stubHost [''label'', ''value''] (FileProcessor_parseCSVLine quotedLine)) ''value''
       = Num (Fin 2)
   \<and> length (AnimateChart_csvRow [''label'', ''value''] (AnimateChart_parseCSVLine quotedLine)) = 2
   \<and> objGet (AnimateChart_csvRow [''label'', ''value''] (AnimateChart_parseCSVLine quotedLine)) ''label''
       = Str ''a,b''
   \<and> objGet (AnimateChart_csvRow [''label'', ''value''] (AnimateChart_parseCSVLine quotedLine)) ''value''
       = Str ''2''"
  using quoted_field_by_call_site
    [of stubHost, THEN conjunct2, THEN conjunct2, THEN conjunct2, THEN conjunct2, rule_format,
     of "''label''" "''value''"]
  by simp

text \<open>
  The claim that a column missing its field is bound to the empty string fails in
  FileToChart: under the header \<open>a,b\<close> the data line \<open>1\<close> binds \<open>b\<close> to \<open>null\<close>, since
  \<open>parseValue\<close> turns the empty string into \<open>null\<close>.
\<close>

theorem missing_field_counterexample:
  "FileProcessor_processCSV stubHost (''a,b'' @ [CHR 0x0A] @ ''1'')
     = Inr ([''a'', ''b''], [[(''a'', Num (Fin 1)), (''b'', Null)]])
   \<and> objGet [(''a'', Num (Fin 1)), (''b'', Null)] ''b'' \<noteq> Str []"
  by code_simp

text \<open>
  Every record of \<open>FileProcessor.processCSV\<close> is the row of one data line. The guard
  on a line without values never fires, since the tokenizer returns at least one field:
  a blank line inside the file becomes a record with every column \<open>null\<close>.
\<close>

lemma processCSV_rows:
  assumes "FileProcessor_processCSV H text = Inr (headers, rows)"
  shows "headers = FileProcessor_parseCSVLine (splitOn CHR 0x0A (trim text) ! 0)
       \<and> rows = map (\<lambda>line. FileProcessor_csvRow H headers (FileProcessor_parseCSVLine line))
                  (tl (splitOn CHR 0x0A (trim text)))"
proof -
  have ne: "FileProcessor_parseCSVLine line \<noteq> []" for line
    by (simp add: FileProcessor_parseCSVLine_def FileProcessor_parseCSVLine_loop_nonempty)
  show ?thesis
    using assms
    by (auto simp: FileProcessor_processCSV_def Let_def FileProcessor_csvRecord_def ne
        intro!: map_filter_all_Some split: if_splits)
qed

lemma blank_line_record:
  "FileProcessor_processCSV H (''a,b'' @ [CHR 0x0A, CHR 0x0A] @ ''1,2'')
     = Inr ([''a'', ''b''], [[(''a'', Null), (''b'', Null)], [(''a'', Num (Fin 1)), (''b'', Num (Fin 2))]])"
  by code_simp

text \<open>
  \<open>parseCSV\<close> of AnimateChart drops the lines that are empty or white space before it
  tokenizes: its records are the rows of the other data lines, one each.
\<close>

lemma parseCSV_rows:
  assumes "AnimateChart_parseCSV csv = Inr rows"
  shows "rows = map (\<lambda>line. AnimateChart_csvRow
                               (AnimateChart_parseCSVLine
                                  (filter (\<lambda>line. trim line \<noteq> []) (splitOn CHR 0x0A (trim csv)) ! 0))
                               (AnimateChart_parseCSVLine line))
                  (tl (filter (\<lambda>line. trim line \<noteq> []) (splitOn CHR 0x0A (trim csv))))"
proof -
  have ne: "AnimateChart_parseCSVLine line \<noteq> []" for line
    by (simp add: AnimateChart_parseCSVLine_def AnimateChart_parseCSVLine_loop_nonempty)
  show ?thesis
    using assms
    by (auto simp: AnimateChart_parseCSV_def Let_def AnimateChart_csvRecord_def ne
        intro!: map_filter_all_Some split: if_splits)
qed

text \<open>
  Claim C8, as the code has it. When a data line has fewer fields than the header has
  columns, each column without a field, other than a column named \<open>__proto__\<close>, is bound
  to \<open>null\<close> by \<open>FileProcessor.processCSV\<close> (FileToChart) and to the empty string by
  \<open>parseCSV\<close> (AnimateChart). In AnimateChart a line that is empty or white space
  produces no record: the records of \<open>parseCSV\<close> are the rows of the other data lines.
\<close>

theorem missing_fields_by_call_site:
  assumes "i < length headers" and "length values \<le> i" and "headers ! i \<noteq> ''__proto__''"
  shows "objGet (FileProcessor_csvRow H headers values) (headers ! i) = Null
       \<and> objGet (AnimateChart_csvRow headers values) (headers ! i) = Str []
       \<and> (\<forall>rows. AnimateChart_parseCSV csv = Inr rows \<longrightarrow>
            rows = map (\<lambda>line. AnimateChart_csvRow
                                  (AnimateChart_parseCSVLine
                                     (filter (\<lambda>line. trim line \<noteq> []) (splitOn CHR 0x0A (trim csv)) ! 0))
                                  (AnimateChart_parseCSVLine line))
                     (tl (filter (\<lambda>line. trim line \<noteq> []) (splitOn CHR 0x0A (trim csv)))))"
  using csvRow_missing_null[OF assms] ac_csvRow_missing_empty[OF assms] parseCSV_rows
  by blast

theorem missing_fields_by_call_site_witness:
  "(1::nat) < length [''a'', ''b''] \<and> length [''1''] \<le> (1::nat) \<and> [''a'', ''b''] ! 1 \<noteq> ''__proto__''
   \<and> objGet (FileProcessor_csvRow stubHost [''a'', ''b''] [''1'']) ''b'' = Null
   \<and> objGet (AnimateChart_csvRow [''a'', ''b''] [''1'']) ''b'' = Str []
   \<and> AnimateChart_parseCSV (''a,b'' @ [CHR 0x0A, CHR 0x0A] @ ''1'') = Inr [[(''a'', Str ''1''), (''b'', Str [])]]
   \<and> tl (filter (\<lambda>line. trim line \<noteq> []) (splitOn CHR 0x0A (trim (''a,b'' @ [CHR 0x0A, CHR 0x0A] @ ''1''))))
       = [''1'']"
proof -
  have p: "AnimateChart_parseCSV (''a,b'' @ [CHR 0x0A, CHR 0x0A] @ ''1'') = Inr [[(''a'', Str ''1''), (''b'', Str [])]]"
    by code_simp
  have l: "tl (filter (\<lambda>line. trim line \<noteq> []) (splitOn CHR 0x0A (trim (''a,b'' @ [CHR 0x0A, CHR 0x0A] @ ''1''))))
       = [''1'']"
    by code_simp
  show ?thesis
    using missing_fields_by_call_site
      [of 1 "[''a'', ''b'']" "[''1'']" stubHost "''a,b'' @ [CHR 0x0A, CHR 0x0A] @ ''1''"] p l
    by simp
qed

text \<open>
  What holds of \<open>parseValue\<close>: empty, \<open>null\<close> and \<open>undefined\<close> become \<open>null\<close>; \<open>true\<close> and
  \<open>false\<close> in any case become booleans; \<open>42\<close> and \<open>3.14\<close> become the numbers 42 and 3.14;
  a number and its string representation are coerced alike.
\<close>

lemma intToDigits_nonempty: "intToDigits n \<noteq> []"
  by (subst intToDigits.simps) simp

lemma numToString_nonempty: "numToString n \<noteq> []"
  by (cases n) (simp_all add: numToString_def intToDigits_nonempty)

lemma parseValue_number_as_its_text:
  "FileProcessor_parseValue H (Num n) = FileProcessor_parseValue H (Str (numToString n))"
  by (simp add: FileProcessor_parseValue_def numToString_nonempty)

lemma parseValue_nullish:
  "FileProcessor_parseValue H (Str []) = Null \<and> FileProcessor_parseValue H Null = Null
   \<and> FileProcessor_parseValue H Undefined = Null"
  by (simp add: FileProcessor_parseValue_def)

lemma parseValue_booleans:
  assumes "s \<noteq> []"
  shows "toLowerCase (trim s) = ''true'' \<Longrightarrow> FileProcessor_parseValue H (Str s) = Bool True"
    and "toLowerCase (trim s) = ''false'' \<Longrightarrow> FileProcessor_parseValue H (Str s) = Bool False"
  using assms by (simp_all add: FileProcessor_parseValue_def)

lemma parseValue_examples:
  "FileProcessor_parseValue H (Str ''42'') = Num (Fin 42)
   \<and> FileProcessor_parseValue H (Str ''3.14'') = Num (Fin (157 / 50))
   \<and> FileProcessor_parseValue H (Str ''TRUE'') = Bool True
   \<and> FileProcessor_parseValue H (Str ''False'') = Bool False"
  by code_simp

text \<open>
  Claim C6, at the inputs where the code departs from it. The strings \<open>.0\<close> and \<open>1e3\<close>
  are numeric (\<open>Number\<close> and \<open>parseFloat\<close> give 0 and 1000, both integral), yet
  \<open>parseValue\<close> returns \<open>parseInt(str, 10)\<close>, which reads only leading digits: NaN for
  \<open>.0\<close> and 1 for \<open>1e3\<close>.
\<close>

theorem parseValue_integral_strings:
  "parseFloat ''.0'' = Fin 0 \<and> stringToNumber ''.0'' = Fin 0
   \<and> FileProcessor_parseValue H (Str ''.0'') = Num NaN
   \<and> parseFloat ''1e3'' = Fin 1000 \<and> stringToNumber ''1e3'' = Fin 1000
   \<and> FileProcessor_parseValue H (Str ''1e3'') = Num (Fin 1)"
  by code_simp

section \<open>Default columns\<close>











section \<open>The size limit of uploads\<close>

lemma trim_padding: "trim (s @ replicate n (CHR '' '')) = trim s"
proof (cases "\<forall>c\<in>set s. isWhiteSpace c")
  case True
  then have a: "dropWhile isWhiteSpace (s @ replicate n (CHR '' '')) = []"
    by (auto simp: dropWhile_eq_Nil_conv isWhiteSpace_def)
  from True have b: "dropWhile isWhiteSpace s = []"
    by (simp add: dropWhile_eq_Nil_conv)
  show ?thesis
    unfolding trim_def trimStart_def trimEnd_def a b by simp
next
  case False
  then have a: "dropWhile isWhiteSpace (s @ replicate n (CHR '' '')) = dropWhile isWhiteSpace s @ replicate n (CHR '' '')"
    by (auto simp: dropWhile_append)
  have b: "dropWhile isWhiteSpace (replicate n (CHR '' '') @ xs) = dropWhile isWhiteSpace xs" for xs
    by (rule dropWhile_append2) (simp add: isWhiteSpace_def)
  show ?thesis
    unfolding trim_def trimStart_def trimEnd_def a by (simp add: b)
qed

lemma parseCSV_padding: "AnimateChart_parseCSV (s @ replicate n (CHR '' '')) = AnimateChart_parseCSV s"
  by (simp add: AnimateChart_parseCSV_def trim_padding)

lemma handleFile_ignores_size:
  "AnimateChart_handleFile H X (file\<lparr> fsize := n \<rparr>) st = AnimateChart_handleFile H X file st"
  by (simp add: AnimateChart_handleFile_def Let_def)

lemma data_csv_name: "endsWith (toLowerCase ''data.csv'') ''.csv'' = True"
  by code_simp

lemma handleFile_csv_padding:
  "AnimateChart_handleFile H X \<lparr> fname = ''data.csv'', fsize = m, ftype = ty, ftext = s @ replicate n (CHR '' '') \<rparr> st
   = AnimateChart_handleFile H X \<lparr> fname = ''data.csv'', fsize = 0, ftype = ty, ftext = s \<rparr> st"
  by (simp only: AnimateChart_handleFile_def AnimateChart_parseFileData_def Let_def File.select_convs
      parseCSV_padding data_csv_name if_True simp_thms)

lemma handleFile_small:
  "AnimateChart_handleFile stubHost noXlsx \<lparr> fname = ''data.csv'', fsize = 0, ftype = ''text/csv'', ftext = smallCsv \<rparr> AnimateChart_initial
   = \<lparr> ac_chartData = Some \<lparr> labels = [''1''], datasets = [\<lparr> dsLabel = ''Sum of b by a'', dsData = [Fin 2] \<rparr>] \<rparr>,
       ac_excelWorkbook = None,
       ac_currentSheetData = Some [Obj [(''a'', Str ''1''), (''b'', Str ''2'')]],
       ac_isLoading = False,
       ac_statusMessage = Some (''File uploaded successfully! 1 records loaded.'', ''success''),
       ac_selectedLabelColumn = ''a'', ac_selectedValueColumn = ''b'',
       ac_showExcelControls = False \<rparr>"
  unfolding smallCsv_def AnimateChart_initial_def by code_simp

text \<open>
  The claim that every upload entry point rejects a file above 10 MB fails in
  AnimateChart: \<open>handleFile\<close> never reads the size, and the oversized CSV file is parsed
  and charted.
\<close>

theorem oversized_upload_counterexample:
  "fsize oversizedCsv = length (ftext oversizedCsv)
   \<and> fsize oversizedCsv > 10 * 1024 * 1024
   \<and> AnimateChart_handleFile stubHost noXlsx oversizedCsv AnimateChart_initial
     = \<lparr> ac_chartData = Some \<lparr> labels = [''1''], datasets = [\<lparr> dsLabel = ''Sum of b by a'', dsData = [Fin 2] \<rparr>] \<rparr>,
         ac_excelWorkbook = None,
         ac_currentSheetData = Some [Obj [(''a'', Str ''1''), (''b'', Str ''2'')]],
         ac_isLoading = False,
         ac_statusMessage = Some (''File uploaded successfully! 1 records loaded.'', ''success''),
         ac_selectedLabelColumn = ''a'', ac_selectedValueColumn = ''b'',
         ac_showExcelControls = False \<rparr>"
proof -
  have "length (ftext oversizedCsv) = 10485767"
    by (simp add: oversizedCsv_def smallCsv_def)
  moreover have "fsize oversizedCsv = 10485767"
    by (simp add: oversizedCsv_def)
  moreover have "AnimateChart_handleFile stubHost noXlsx oversizedCsv AnimateChart_initial
     = AnimateChart_handleFile stubHost noXlsx \<lparr> fname = ''data.csv'', fsize = 0, ftype = ''text/csv'', ftext = smallCsv \<rparr> AnimateChart_initial"
    unfolding oversizedCsv_def by (rule handleFile_csv_padding)
  ultimately show ?thesis
    by (simp add: handleFile_small)
qed

text \<open>
  Claim C5, as the code has it. In FileToChart a file whose size exceeds
  \<open>10 * 1024 * 1024\<close> bytes is rejected by \<open>handleFileUpload\<close>: an error message is
  added to the status messages and nothing else of the page state changes, whatever the
  file holds. In AnimateChart \<open>handleFile\<close> has no size limit: its result does not depend
  on the size of the file.
\<close>

theorem oversized_upload_by_page:
  assumes "fsize file > 10 * 1024 * 1024"
  shows "FileToChart_handleFileUpload H (Some file) st
           = st\<lparr> statusMessages := statusMessages st @ [(''File size exceeds the limit of 10MB.'', error)] \<rparr>
       \<and> AnimateChart_handleFile H X file st' = AnimateChart_handleFile H X (file\<lparr> fsize := 0 \<rparr>) st'"
  using assms
  by (simp add: FileToChart_handleFileUpload_def addStatusMessage_def handleFile_ignores_size)

theorem oversized_upload_by_page_witness:
  "fsize oversizedCsv > 10 * 1024 * 1024
   \<and> FileToChart_handleFileUpload stubHost (Some oversizedCsv) FileToChart_initial
       = FileToChart_initial\<lparr> statusMessages := [(''File size exceeds the limit of 10MB.'', error)] \<rparr>"
proof -
  have a: "fsize oversizedCsv > 10 * 1024 * 1024"
    by (simp add: oversizedCsv_def)
  have b: "statusMessages FileToChart_initial = []"
    by (simp add: FileToChart_initial_def)
  show ?thesis
    using oversized_upload_by_page [OF a, of stubHost FileToChart_initial] a b by simp
qed

section \<open>The ER parser\<close>

lemma makeAttribute_flags:
  "isPrimaryKey (makeAttribute attr) = (endsWith attr ''id'' \<and> \<not> includesStr attr ''_id'')
   \<and> isForeignKey (makeAttribute attr) = (includesStr attr ''_id'' \<and> attr \<noteq> ''id'')"
  by (simp add: makeAttribute_def Let_def)

lemma set_mapSet_subset: "set (mapSet k v m) \<subseteq> insert (k, v) (set m)"
  by (induction m) auto

lemma set_objSet_subset: "set (objSet ob k v) \<subseteq> insert (k, v) (set ob)"
  by (simp add: objSet_def set_mapSet_subset set_insertIndexKey)

lemma parseEntityLine_made:
  assumes "\<forall>p\<in>set entityMap. madeByParser (snd p)"
  shows "\<forall>p\<in>set (parseEntityLine entityMap line). madeByParser (snd p)"
proof (cases "rxSearch tableRx (trim line)")
  case None
  then show ?thesis using assms by (simp add: parseEntityLine_def)
next
  case (Some m)
  show ?thesis
  proof
    fix p assume "p \<in> set (parseEntityLine entityMap line)"
    then obtain k v where "p \<in> insert (k, v) (set entityMap)" "madeByParser v"
      using Some set_objSet_subset
      unfolding parseEntityLine_def Let_def madeByParser_def
      by (fastforce simp: madeByParser_def)
    then show "madeByParser (snd p)" using assms by auto
  qed
qed

lemma foldl_parseEntityLine_made:
  assumes "\<forall>p\<in>set entityMap. madeByParser (snd p)"
  shows "\<forall>p\<in>set (foldl parseEntityLine entityMap lines). madeByParser (snd p)"
  using assms
proof (induction lines arbitrary: entityMap)
  case Nil
  then show ?case by simp
next
  case (Cons line lines)
  have "\<forall>p\<in>set (parseEntityLine entityMap line). madeByParser (snd p)"
    by (rule parseEntityLine_made) (rule Cons.prems)
  then show ?case
    using Cons.IH by simp
qed

text \<open>
  Claim C10. For every attribute produced by the ER text parser, the primary-key flag
  and the foreign-key flag are never both true: the attribute is made from a name, its
  primary-key flag says that the name ends in \<open>id\<close> and does not contain \<open>_id\<close>, and
  its foreign-key flag says that the name contains \<open>_id\<close> (and is not \<open>id\<close>).
\<close>

theorem key_flags_exclusive:
  "\<forall>ent\<in>set (entities (parseTextToER text)). \<forall>a\<in>set (attributes ent).
     \<not> (isPrimaryKey a \<and> isForeignKey a)
     \<and> (\<exists>attr. a = makeAttribute attr
           \<and> isPrimaryKey a = (endsWith attr ''id'' \<and> \<not> includesStr attr ''_id'')
           \<and> isForeignKey a = (includesStr attr ''_id'' \<and> attr \<noteq> ''id''))"
proof (intro ballI)
  fix ent a
  assume ent: "ent \<in> set (entities (parseTextToER text))" and a: "a \<in> set (attributes ent)"
  let ?lines = "filter (\<lambda>line. trim line \<noteq> []) (splitOn CHR 0x0A (toLowerCase text))"
  have "\<forall>p\<in>set (foldl parseEntityLine [] ?lines). madeByParser (snd p)"
    by (rule foldl_parseEntityLine_made) simp
  moreover have "ent \<in> snd ` set (foldl parseEntityLine [] ?lines)"
    using ent by (simp add: parseTextToER_def Let_def objValues_def)
  ultimately have "madeByParser ent" by auto
  then obtain attr where "a = makeAttribute attr"
    using a unfolding madeByParser_def by blast
  then show "\<not> (isPrimaryKey a \<and> isForeignKey a)
     \<and> (\<exists>attr. a = makeAttribute attr
           \<and> isPrimaryKey a = (endsWith attr ''id'' \<and> \<not> includesStr attr ''_id'')
           \<and> isForeignKey a = (includesStr attr ''_id'' \<and> attr \<noteq> ''id''))"
    using makeAttribute_flags [of attr] by auto
qed

lemma erSmall_entities:
  "entities (parseTextToER erSmallText) =
     [\<lparr> entId = ''users'', entName = ''USERS'',
        attributes = [\<lparr> attrName = ''id'', attrType = ''int'', isPrimaryKey = True, isForeignKey = False \<rparr>,
                      \<lparr> attrName = ''org_id'', attrType = ''int'', isPrimaryKey = False, isForeignKey = True \<rparr>],
        entX = 0, entY = 0 \<rparr>]"
  unfolding erSmallText_def by code_simp

theorem key_flags_exclusive_witness:
  "entities (parseTextToER erSmallText) =
     [\<lparr> entId = ''users'', entName = ''USERS'',
        attributes = [\<lparr> attrName = ''id'', attrType = ''int'', isPrimaryKey = True, isForeignKey = False \<rparr>,
                      \<lparr> attrName = ''org_id'', attrType = ''int'', isPrimaryKey = False, isForeignKey = True \<rparr>],
        entX = 0, entY = 0 \<rparr>]
   \<and> list_all (\<lambda>ent. list_all (\<lambda>a. \<not> (isPrimaryKey a \<and> isForeignKey a)) (attributes ent))
        (entities (parseTextToER erSmallText))"
  using key_flags_exclusive [of erSmallText] erSmall_entities
  by (simp add: list_all_iff)


lemma erExample_eval:
  "entities (parseTextToER erExampleText) =
     [\<lparr> entId = ''students'', entName = ''STUDENTS'',
        attributes = [\<lparr> attrName = ''student_id'', attrType = ''int'', isPrimaryKey = False, isForeignKey = True \<rparr>,
                      \<lparr> attrName = ''name'', attrType = ''string'', isPrimaryKey = False, isForeignKey = False \<rparr>],
        entX = 0, entY = 0 \<rparr>,
      \<lparr> entId = ''courses'', entName = ''COURSES'',
        attributes = [\<lparr> attrName = ''course_id'', attrType = ''int'', isPrimaryKey = False, isForeignKey = True \<rparr>,
                      \<lparr> attrName = ''title'', attrType = ''string'', isPrimaryKey = False, isForeignKey = False \<rparr>],
        entX = 0, entY = 0 \<rparr>]
   \<and> relationships (parseTextToER erExampleText) =
     [\<lparr> relId = ''students-courses-2'', fromEntity = ''students'', toEntity = ''courses'',
        relType = ''many-to-many'', relLabel = ''enrolls in'' \<rparr>]"
proof -
  let ?l1 = "''students table (student_id, name)''"
  let ?l2 = "''courses table (course_id, title)''"
  let ?l3 = "''students enroll in courses (many-to-many relationship called '' @ [CHR 0x27] @ ''enrollment'' @ [CHR 0x27] @ '')''"
  let ?EM = "[(''students'',
        \<lparr> entId = ''students'', entName = ''STUDENTS'',
        attributes = [\<lparr> attrName = ''student_id'', attrType = ''int'', isPrimaryKey = False, isForeignKey = True \<rparr>,
                      \<lparr> attrName = ''name'', attrType = ''string'', isPrimaryKey = False, isForeignKey = False \<rparr>],
        entX = 0, entY = 0 \<rparr>),
       (''courses'',
      \<lparr> entId = ''courses'', entName = ''COURSES'',
        attributes = [\<lparr> attrName = ''course_id'', attrType = ''int'', isPrimaryKey = False, isForeignKey = True \<rparr>,
                      \<lparr> attrName = ''title'', attrType = ''string'', isPrimaryKey = False, isForeignKey = False \<rparr>],
        entX = 0, entY = 0 \<rparr>)]"
  let ?R = "[\<lparr> relId = ''students-courses-2'', fromEntity = ''students'', toEntity = ''courses'',
        relType = ''many-to-many'', relLabel = ''enrolls in'' \<rparr>]"
  have lines: "filter (\<lambda>line. trim line \<noteq> []) (splitOn CHR 0x0A (toLowerCase erExampleText)) = [?l1, ?l2, ?l3]"
    unfolding erExampleText_def by code_simp
  have em: "foldl parseEntityLine [] [?l1, ?l2, ?l3] = ?EM"
    by code_simp
  have rels: "foldl (parseRelationshipLine ?EM) [] (enumerate 0 [?l1, ?l2, ?l3]) = ?R"
    by code_simp
  have fk: "inferForeignKeys ?EM ?R = ?R"
    by (simp add: inferForeignKeys_def)
  show ?thesis
    unfolding parseTextToER_def Let_def lines em rels fk by (simp add: objValues_def)
qed

lemma explicit_pattern_misses_example:
  "rxSearch explicitRelationshipRx
     (''students enroll in courses (many-to-many relationship called '' @ [CHR 0x27] @ ''enrollment'' @ [CHR 0x27] @ '')'')
   = None"
  by code_simp

text \<open>
  On the example text the relationship is found by the keyword fallback, not by the
  explicit pattern (which lists \<open>enrolls in\<close>, not \<open>enroll in\<close>): its label is
  \<open>enrolls in\<close>, not \<open>Enrollment\<close>. The attributes \<open>student_id\<close> and \<open>course_id\<close>
  contain \<open>_id\<close> and are not flagged primary-key.
\<close>

theorem er_example_counterexample:
  "relLabel (relationships (parseTextToER erExampleText) ! 0) = ''enrolls in''
   \<and> relLabel (relationships (parseTextToER erExampleText) ! 0) \<noteq> ''Enrollment''
   \<and> attrName (attributes (entities (parseTextToER erExampleText) ! 0) ! 0) = ''student_id''
   \<and> \<not> isPrimaryKey (attributes (entities (parseTextToER erExampleText) ! 0) ! 0)
   \<and> attrName (attributes (entities (parseTextToER erExampleText) ! 1) ! 0) = ''course_id''
   \<and> \<not> isPrimaryKey (attributes (entities (parseTextToER erExampleText) ! 1) ! 0)"
  by (simp add: erExample_eval)

text \<open>
  Claim C1, as the code has it. For the example text \<open>parseTextToER\<close> yields exactly two
  entities, \<open>students\<close> and \<open>courses\<close>, and exactly one relationship, of type
  many-to-many, from \<open>students\<close> to \<open>courses\<close>; the attributes \<open>student_id\<close> and
  \<open>course_id\<close> are flagged foreign-key and not primary-key.
\<close>

theorem er_example:
  "length (entities (parseTextToER erExampleText)) = 2
   \<and> map entId (entities (parseTextToER erExampleText)) = [''students'', ''courses'']
   \<and> length (relationships (parseTextToER erExampleText)) = 1
   \<and> relType (relationships (parseTextToER erExampleText) ! 0) = ''many-to-many''
   \<and> fromEntity (relationships (parseTextToER erExampleText) ! 0) = ''students''
   \<and> toEntity (relationships (parseTextToER erExampleText) ! 0) = ''courses''
   \<and> map (\<lambda>a. (attrName a, isPrimaryKey a, isForeignKey a)) (attributes (entities (parseTextToER erExampleText) ! 0))
       = [(''student_id'', False, True), (''name'', False, False)]
   \<and> map (\<lambda>a. (attrName a, isPrimaryKey a, isForeignKey a)) (attributes (entities (parseTextToER erExampleText) ! 1))
       = [(''course_id'', False, True), (''title'', False, False)]"
  by (simp add: erExample_eval)


section \<open>The fit view\<close>

lemma minOpt_simps: "minOpt None v = Some v" "minOpt (Some a) v = Some (min a v)"
  by (simp_all add: minOpt_def)

lemma maxOpt_simps: "maxOpt None v = Some v" "maxOpt (Some a) v = Some (max a v)"
  by (simp_all add: maxOpt_def)

lemma foldl_minOpt:
  "foldl minOpt a xs =
     (case a of None \<Rightarrow> (if xs = [] then None else Some (Min (set xs)))
              | Some a0 \<Rightarrow> Some (Min (insert a0 (set xs))))"
proof (induction xs arbitrary: a)
  case Nil
  then show ?case by (simp split: option.splits)
next
  case (Cons x xs)
  show ?case
  proof (cases a)
    case None
    then show ?thesis by (simp add: Cons.IH minOpt_simps)
  next
    case (Some a0)
    have "Min (insert (min a0 x) (set xs)) = Min (insert a0 (insert x (set xs)))"
      by (cases "xs = []") (simp_all add: min.assoc)
    then show ?thesis using Some by (simp add: Cons.IH minOpt_simps)
  qed
qed

lemma foldl_maxOpt:
  "foldl maxOpt a xs =
     (case a of None \<Rightarrow> (if xs = [] then None else Some (Max (set xs)))
              | Some a0 \<Rightarrow> Some (Max (insert a0 (set xs))))"
proof (induction xs arbitrary: a)
  case Nil
  then show ?case by (simp split: option.splits)
next
  case (Cons x xs)
  show ?case
  proof (cases a)
    case None
    then show ?thesis by (simp add: Cons.IH maxOpt_simps)
  next
    case (Some a0)
    have "Max (insert (max a0 x) (set xs)) = Max (insert a0 (insert x (set xs)))"
      by (cases "xs = []") (simp_all add: max.assoc)
    then show ?thesis using Some by (simp add: Cons.IH maxOpt_simps)
  qed
qed

lemma foldl_entityBounds:
  "foldl entityBounds b ps =
     \<lparr> minX = foldl minOpt (minX b) (map (\<lambda>p. fst p - 180) ps),
       maxX = foldl maxOpt (maxX b) (map (\<lambda>p. fst p + 320) ps),
       minY = foldl minOpt (minY b) (map (\<lambda>p. snd p - 160) ps),
       maxY = foldl maxOpt (maxY b) (map (\<lambda>p. snd p + 200) ps) \<rparr>"
  by (induction ps arbitrary: b) (simp_all add: entityBounds_def)

lemma foldl_relationshipBounds:
  "foldl relationshipBounds b ps =
     \<lparr> minX = foldl minOpt (minX b) (map (\<lambda>p. fst p - 50) ps),
       maxX = foldl maxOpt (maxX b) (map (\<lambda>p. fst p + 150) ps),
       minY = foldl minOpt (minY b) (map (\<lambda>p. snd p - 30) ps),
       maxY = foldl maxOpt (maxY b) (map (\<lambda>p. snd p + 60) ps) \<rparr>"
  by (induction ps arbitrary: b) (simp_all add: relationshipBounds_def)

text \<open>The bounds after both loops, as a minimum and a maximum over all shapes.\<close>

lemma foldl_minOpt_append:
  assumes "xs @ ys \<noteq> []"
  shows "foldl minOpt (foldl minOpt None xs) ys = Some (Min (set (xs @ ys)))"
proof (cases "xs = []")
  case True
  then show ?thesis using assms by (simp add: foldl_minOpt)
next
  case False
  then show ?thesis
    by (cases "ys = []") (simp_all add: foldl_minOpt Min.union)
qed

lemma foldl_maxOpt_append:
  assumes "xs @ ys \<noteq> []"
  shows "foldl maxOpt (foldl maxOpt None xs) ys = Some (Max (set (xs @ ys)))"
proof (cases "xs = []")
  case True
  then show ?thesis using assms by (simp add: foldl_maxOpt)
next
  case False
  then show ?thesis
    by (cases "ys = []") (simp_all add: foldl_maxOpt Max.union)
qed

lemma fit_view_bounds:
  assumes ne: "es @ rs \<noteq> []"
  defines "xs \<equiv> map (\<lambda>p. fst p - 180) es @ map (\<lambda>p. fst p - 50) rs"
    and "Xs \<equiv> map (\<lambda>p. fst p + 320) es @ map (\<lambda>p. fst p + 150) rs"
    and "ys \<equiv> map (\<lambda>p. snd p - 160) es @ map (\<lambda>p. snd p - 30) rs"
    and "Ys \<equiv> map (\<lambda>p. snd p + 200) es @ map (\<lambda>p. snd p + 60) rs"
  shows "foldl relationshipBounds (foldl entityBounds \<lparr> minX = None, maxX = None, minY = None, maxY = None \<rparr> es) rs
         = \<lparr> minX = Some (Min (set xs)), maxX = Some (Max (set Xs)),
             minY = Some (Min (set ys)), maxY = Some (Max (set Ys)) \<rparr>"
proof -
  have "xs \<noteq> []" "Xs \<noteq> []" "ys \<noteq> []" "Ys \<noteq> []"
    using ne by (auto simp: xs_def Xs_def ys_def Ys_def)
  then show ?thesis
    unfolding foldl_relationshipBounds foldl_entityBounds xs_def Xs_def ys_def Ys_def
    by (simp add: foldl_minOpt_append foldl_maxOpt_append)
qed

lemma fit_axis:
  fixes c W z m x :: real
  assumes c: "0 < c" and W: "100 \<le> W" and z: "0 \<le> z" "z * W \<le> c"
    and x: "m \<le> x" "x \<le> m + W - 100"
  shows "0 \<le> (c - W * z) / 2 - m * z + z * x \<and> (c - W * z) / 2 - m * z + z * x \<le> c"
proof -
  define A where "A = z * W"
  define B where "B = z * (x - m)"
  have a: "0 \<le> B" unfolding B_def using z x by simp
  have "z * (x - m) \<le> z * (W - 100)"
    using z x by (intro mult_left_mono) auto
  then have b: "B \<le> A - 100 * z"
    unfolding A_def B_def by (simp add: algebra_simps)
  have A: "A \<le> c" unfolding A_def by (rule z(2))
  have e: "(c - W * z) / 2 - m * z + z * x = (c - A) / 2 + B"
    unfolding A_def B_def by (simp add: algebra_simps)
  have "0 \<le> (c - A) / 2 + B"
    using a A by argo
  moreover have "(c - A) / 2 + B \<le> c"
    using b A z(1) by argo
  ultimately show ?thesis
    unfolding e by simp
qed

text \<open>
  What holds of \<open>resetViewToFit\<close> in a container of positive size: the zoom is positive
  and at most 1, and the box of every entity, extended by the margins of its attributes
  (180 to the left, 320 to the right, 160 above, 200 below its position), lies within
  the container. The padding of 50 is added to the size that must fit, but the pan
  places the leftmost and topmost margin at the edge of the centred area: all of the
  padding ends up to the right of and below the diagram.
\<close>

theorem fit_view_margin_boxes_visible:
  assumes cw: "0 < containerWidth" and ch: "0 < containerHeight"
    and v: "resetViewToFit containerWidth containerHeight es rs = Some v"
    and p: "p \<in> set es"
  shows "0 < zoom v \<and> zoom v \<le> 1
       \<and> 0 \<le> screenX v (fst p - 180) \<and> screenX v (fst p + 320) \<le> containerWidth
       \<and> 0 \<le> screenY v (snd p - 160) \<and> screenY v (snd p + 200) \<le> containerHeight"
proof -
  define xs where "xs = map (\<lambda>p. fst p - 180) es @ map (\<lambda>p. fst p - 50) rs"
  define Xs where "Xs = map (\<lambda>p. fst p + 320) es @ map (\<lambda>p. fst p + 150) rs"
  define ys where "ys = map (\<lambda>p. snd p - 160) es @ map (\<lambda>p. snd p - 30) rs"
  define Ys where "Ys = map (\<lambda>p. snd p + 200) es @ map (\<lambda>p. snd p + 60) rs"
  define m M n N where "m = Min (set xs)" and "M = Max (set Xs)" and "n = Min (set ys)" and "N = Max (set Ys)"
  define W H where "W = M - m + 50 * 2" and "H = N - n + 50 * 2"
  define z where "z = min (min (containerWidth / W) (containerHeight / H)) 1"
  have ne: "es @ rs \<noteq> []" using p by auto
  have b: "foldl relationshipBounds (foldl entityBounds \<lparr> minX = None, maxX = None, minY = None, maxY = None \<rparr> es) rs
         = \<lparr> minX = Some m, maxX = Some M, minY = Some n, maxY = Some N \<rparr>"
    unfolding m_def M_def n_def N_def xs_def Xs_def ys_def Ys_def by (rule fit_view_bounds [OF ne])
  have veq: "v = \<lparr> zoom = z, panX = (containerWidth - W * z) / 2 - m * z,
                    panY = (containerHeight - H * z) / 2 - n * z \<rparr>"
    using v ne unfolding resetViewToFit_def Let_def b
    by (auto simp: z_def W_def H_def split: if_splits)
  have mx: "m \<le> fst p - 180" unfolding m_def using p by (intro Min_le) (auto simp: xs_def)
  have Mx: "fst p + 320 \<le> M" unfolding M_def using p by (intro Max_ge) (auto simp: Xs_def)
  have ny: "n \<le> snd p - 160" unfolding n_def using p by (intro Min_le) (auto simp: ys_def)
  have Ny: "snd p + 200 \<le> N" unfolding N_def using p by (intro Max_ge) (auto simp: Ys_def)
  have W: "100 \<le> W" and H: "100 \<le> H"
    using mx Mx ny Ny by (auto simp: W_def H_def)
  have zpos: "0 < z"
    unfolding z_def using cw ch W H by (simp add: min_def)
  have "z \<le> containerWidth / W" "z \<le> containerHeight / H" "z \<le> 1"
    unfolding z_def by auto
  then have zW: "z * W \<le> containerWidth" and zH: "z * H \<le> containerHeight" and z1: "z \<le> 1"
    using W H by (auto simp: pos_le_divide_eq)
  have X1: "0 \<le> (containerWidth - W * z) / 2 - m * z + z * (fst p - 180)
          \<and> (containerWidth - W * z) / 2 - m * z + z * (fst p - 180) \<le> containerWidth"
    by (rule fit_axis [OF cw W _ zW]) (use zpos mx Mx in \<open>auto simp: W_def\<close>)
  have X2: "0 \<le> (containerWidth - W * z) / 2 - m * z + z * (fst p + 320)
          \<and> (containerWidth - W * z) / 2 - m * z + z * (fst p + 320) \<le> containerWidth"
    by (rule fit_axis [OF cw W _ zW]) (use zpos mx Mx in \<open>auto simp: W_def\<close>)
  have Y1: "0 \<le> (containerHeight - H * z) / 2 - n * z + z * (snd p - 160)
          \<and> (containerHeight - H * z) / 2 - n * z + z * (snd p - 160) \<le> containerHeight"
    by (rule fit_axis [OF ch H _ zH]) (use zpos ny Ny in \<open>auto simp: H_def\<close>)
  have Y2: "0 \<le> (containerHeight - H * z) / 2 - n * z + z * (snd p + 200)
          \<and> (containerHeight - H * z) / 2 - n * z + z * (snd p + 200) \<le> containerHeight"
    by (rule fit_axis [OF ch H _ zH]) (use zpos ny Ny in \<open>auto simp: H_def\<close>)
  show ?thesis
    using zpos z1 X1 X2 Y1 Y2 by (simp add: veq screenX_def screenY_def)
qed

lemma gridCols_2: "gridCols 2 = 2"
proof -
  have "1 < sqrt 2" by simp
  moreover have "sqrt 2 \<le> 2" by (rule real_le_lsqrt) simp_all
  ultimately have "\<lceil>sqrt 2\<rceil> = 2" by (simp add: ceiling_eq_iff)
  then show ?thesis by (simp add: gridCols_def)
qed

lemma objSet_empty: "objSet [] k v = [(k, v)]"
  by (simp add: objSet_def)

lemma courses_not_index: "\<not> isArrayIndex ''courses''"
  by code_simp

lemma objSet_second: "k' \<noteq> k \<Longrightarrow> \<not> isArrayIndex k \<Longrightarrow> objSet [(k', v')] k v = [(k', v'), (k, v)]"
  by (simp add: objSet_def)

lemma gridCols_Suc_Suc: "gridCols (Suc (Suc 0)) = 2"
  using gridCols_2 by (simp add: numeral_2_eq_2)

lemma erExample_layout:
  "layoutEntities (entities (parseTextToER erExampleText))
     = [(''students'', (100, 100)), (''courses'', (620, 100))]
   \<and> layoutRelationships [(''students'', (100, 100)), (''courses'', (620, 100))]
        (relationships (parseTextToER erExampleText))
     = [(''students-courses-2'', (390, 95))]"
  by (simp add: erExample_eval layoutEntities_def layoutRelationships_def gridCols_Suc_Suc gridPosition_def
      relationshipPosition_def objSet_empty objSet_second courses_not_index)

text \<open>
  Claim C9, at an input where the code departs from it. The diagram of the example text
  (two entities and one relationship, laid out by the layout effect) in the default
  container of 900 by 700: the zoom is 45/56, and the left edge of the \<open>students\<close>
  entity, extended by the attribute margin of 180 and the padding of 50, appears at
  \<open>-1125/28\<close>, left of the container; without the padding it appears at 0.
\<close>

theorem fit_view_cuts_padding:
  "layoutView 900 700 (entities (parseTextToER erExampleText)) (relationships (parseTextToER erExampleText))
     = Some \<lparr> zoom = 45 / 56, panX = 450 / 7, panY = 5975 / 28 \<rparr>
   \<and> screenX \<lparr> zoom = 45 / 56, panX = 450 / 7, panY = 5975 / 28 \<rparr> (100 - 180 - 50) = - (1125 / 28)
   \<and> screenX \<lparr> zoom = 45 / 56, panX = 450 / 7, panY = 5975 / 28 \<rparr> (100 - 180) = 0"
proof -
  have n: "length (entities (parseTextToER erExampleText)) = 2"
    by (simp add: erExample_eval)
  have "resetViewToFit 900 700 [(100, 100), (620, 100)] [(390, 95)]
          = Some \<lparr> zoom = 45 / 56, panX = 450 / 7, panY = 5975 / 28 \<rparr>"
    by (simp add: resetViewToFit_def Let_def entityBounds_def relationshipBounds_def minOpt_def maxOpt_def)
  then show ?thesis
    by (simp add: layoutView_def n erExample_layout objValues_def screenX_def)
qed

section \<open>Aggregation into chart data\<close>

lemma mapGetList_mapSet: "mapGetList (mapSet k v m) k' = (if k' = k then v else mapGetList m k')"
  by (simp add: mapGetList_def map_of_mapSet)


lemma mapHas_mapSet: "mapHas (mapSet k v m) k' \<longleftrightarrow> k' = k \<or> mapHas m k'"
  by (simp add: mapHas_def map_of_mapSet)

lemma numOr0_Fin: "numOr0 (Fin q) = Fin q"
  by (simp add: numOr0_def)



text \<open>The keys of the grouped data: the labels in the order of their first record.\<close>

lemma setOrder_addOnce: "setOrder (xs :: 'a list) = foldl addOnce [] xs"
proof -
  have "(addOnce :: 'a list \<Rightarrow> 'a \<Rightarrow> 'a list) = (\<lambda>acc x. if x \<in> set acc then acc else acc @ [x])"
    by (simp add: fun_eq_iff addOnce_def)
  then show ?thesis by (simp add: setOrder_def)
qed

lemma distinct_foldl_addOnce: "distinct acc \<Longrightarrow> distinct (foldl addOnce acc xs)"
  by (induction xs arbitrary: acc) (auto simp: addOnce_def)


lemma distinct_setOrder: "distinct (setOrder xs)"
  by (simp add: setOrder_addOnce distinct_foldl_addOnce)



lemma groupRow_keys:
  "map fst (FileToChart_groupRow isN lc vc sc G r) = addOnce (map fst G) (labelOf lc r)"
proof (cases "mapHas G (labelOf lc r)")
  case True
  then show ?thesis
    by (simp add: FileToChart_groupRow_def Let_def labelOf_def addOnce_def map_fst_mapSet mapHas_iff)
next
  case False
  then show ?thesis
    by (simp add: FileToChart_groupRow_def Let_def labelOf_def addOnce_def map_fst_mapSet mapHas_mapSet)
       (simp add: mapHas_iff)
qed

lemma foldl_groupRow_keys:
  "map fst (foldl (FileToChart_groupRow isN lc vc sc) G rows) = foldl addOnce (map fst G) (map (labelOf lc) rows)"
  by (induction rows arbitrary: G) (simp_all add: groupRow_keys)

lemma grouped_keys:
  "map fst (foldl (FileToChart_groupRow isN lc vc sc) [] rows) = setOrder (map (labelOf lc) rows)"
  by (simp add: foldl_groupRow_keys setOrder_addOnce)








lemma FileToChart_chart_labels:
  assumes "lc \<noteq> []" and "vc \<noteq> []"
  shows "\<exists>cd. FileToChart_processDataForChart data lc vc sc = Some cd
            \<and> labels cd = take 50 (setOrder (map (labelOf lc) (take 1000 data)))"
  using assms by (simp add: FileToChart_processDataForChart_def Let_def grouped_keys)

lemma FileToChart_chart_depends:
  assumes "FileToChart_isNumericValue data' vc = FileToChart_isNumericValue data vc"
    and "take 1000 data' = take 1000 data"
  shows "FileToChart_processDataForChart data' lc vc sc = FileToChart_processDataForChart data lc vc sc"
  using assms by (simp add: FileToChart_processDataForChart_def)

text \<open>Counting or summing a run of equal records.\<close>

lemma textRow_step:
  "FileToChart_groupRow False ''k'' ''v'' [] [(''a'', [(''Default'', Fin q)])] textRow = [(''a'', [(''Default'', Fin (q + 1))])]"
  "FileToChart_groupRow True ''k'' ''v'' [] [(''a'', [(''Default'', Fin q)])] textRow = [(''a'', [(''Default'', Fin q)])]"
  "FileToChart_groupRow False ''k'' ''v'' [] [] textRow = [(''a'', [(''Default'', Fin 1)])]"
  "FileToChart_groupRow True ''k'' ''v'' [] [] textRow = [(''a'', [(''Default'', Fin 0)])]"
proof -
  have l: "trim (jsToString (jsOr (objGet textRow ''k'') (Str ''Unknown''))) = ''a''"
    unfolding textRow_def by code_simp
  have v: "numOr0 (jsToNumber (objGet textRow ''v'')) = Fin 0"
    unfolding textRow_def by code_simp
  show "FileToChart_groupRow False ''k'' ''v'' [] [(''a'', [(''Default'', Fin q)])] textRow = [(''a'', [(''Default'', Fin (q + 1))])]"
    "FileToChart_groupRow True ''k'' ''v'' [] [(''a'', [(''Default'', Fin q)])] textRow = [(''a'', [(''Default'', Fin q)])]"
    "FileToChart_groupRow False ''k'' ''v'' [] [] textRow = [(''a'', [(''Default'', Fin 1)])]"
    "FileToChart_groupRow True ''k'' ''v'' [] [] textRow = [(''a'', [(''Default'', Fin 0)])]"
    by (simp_all add: FileToChart_groupRow_def Let_def l v mapHas_def mapGetList_def getOr0_def numOr0_Fin)
qed

lemma textRow_count:
  "foldl (FileToChart_groupRow False ''k'' ''v'' []) [(''a'', [(''Default'', Fin q)])] (replicate n textRow)
     = [(''a'', [(''Default'', Fin (q + of_nat n))])]"
  by (induction n arbitrary: q) (simp_all add: textRow_step add.assoc add.commute)

lemma textRow_sum:
  "foldl (FileToChart_groupRow True ''k'' ''v'' []) [(''a'', [(''Default'', Fin q)])] (replicate n textRow)
     = [(''a'', [(''Default'', Fin q)])]"
  by (induction n) (simp_all add: textRow_step)

lemma textRow_not_number: "\<not> isNumber (objGet textRow ''v'')"
  unfolding textRow_def by code_simp

lemma numberRow_number: "isNumber (objGet numberRow ''v'')"
  unfolding numberRow_def by code_simp

lemma allText_not_numeric: "\<not> FileToChart_isNumericValue allText ''v''"
  by (auto simp: FileToChart_isNumericValue_def allText_def list_ex_iff textRow_not_number)

lemma lateNumbers_numeric: "FileToChart_isNumericValue lateNumbers ''v''"
  by (auto simp: FileToChart_isNumericValue_def lateNumbers_def list_ex_iff numberRow_number)

lemma textRow_counted:
  "0 < n \<Longrightarrow> foldl (FileToChart_groupRow False ''k'' ''v'' []) [] (replicate n textRow)
     = [(''a'', [(''Default'', Fin (of_nat n))])]"
  by (cases n) (simp_all add: textRow_step textRow_count add.commute)

lemma textRow_summed:
  "0 < n \<Longrightarrow> foldl (FileToChart_groupRow True ''k'' ''v'' []) [] (replicate n textRow)
     = [(''a'', [(''Default'', Fin 0)])]"
  by (cases n) (simp_all add: textRow_step textRow_sum)

lemma setOrder_single: "setOrder [x] = [x]"
  by (simp add: setOrder_def)

text \<open>
  The output of the FileToChart aggregation is not a function of the first 1000 records
  alone. Two lists of 2000 records agree on their first 1000; the value column of the
  first holds only text, that of the second holds numbers from record 1001 on. The flag
  that chooses between summing and counting scans every record, so the first list is
  counted (\<open>v (Count)\<close>, 1000) and the second is summed (\<open>v (Sum)\<close>, 0).
\<close>

theorem rows_beyond_1000_counterexample:
  "length allText = 2000 \<and> length lateNumbers = 2000
   \<and> take 1000 allText = take 1000 lateNumbers
   \<and> FileToChart_processDataForChart allText ''k'' ''v'' []
       = Some \<lparr> labels = [''a''], datasets = [\<lparr> dsLabel = ''v (Count)'', dsData = [Fin 1000] \<rparr>] \<rparr>
   \<and> FileToChart_processDataForChart lateNumbers ''k'' ''v'' []
       = Some \<lparr> labels = [''a''], datasets = [\<lparr> dsLabel = ''v (Sum)'', dsData = [Fin 0] \<rparr>] \<rparr>"
proof -
  have t1: "take 1000 allText = replicate 1000 textRow"
    by (simp add: allText_def)
  have t2: "take 1000 lateNumbers = replicate 1000 textRow"
    by (simp add: lateNumbers_def)
  have c: "foldl (FileToChart_groupRow False ''k'' ''v'' []) [] (replicate 1000 textRow)
     = [(''a'', [(''Default'', Fin 1000)])]"
    using textRow_counted [of 1000] by simp
  have s: "foldl (FileToChart_groupRow True ''k'' ''v'' []) [] (replicate 1000 textRow)
     = [(''a'', [(''Default'', Fin 0)])]"
    using textRow_summed [of 1000] by simp
  have a: "FileToChart_processDataForChart allText ''k'' ''v'' []
       = Some \<lparr> labels = [''a''], datasets = [\<lparr> dsLabel = ''v (Count)'', dsData = [Fin 1000] \<rparr>] \<rparr>"
    by (simp add: FileToChart_processDataForChart_def Let_def allText_not_numeric t1 c setOrder_single
        mapGetList_def getOr0_def numOr0_Fin)
  have b: "FileToChart_processDataForChart lateNumbers ''k'' ''v'' []
       = Some \<lparr> labels = [''a''], datasets = [\<lparr> dsLabel = ''v (Sum)'', dsData = [Fin 0] \<rparr>] \<rparr>"
    by (simp add: FileToChart_processDataForChart_def Let_def lateNumbers_numeric t2 s setOrder_single
        mapGetList_def getOr0_def numOr0_Fin)
  show ?thesis
    using a b by (simp add: t1 t2) (simp add: allText_def lateNumbers_def)
qed

text \<open>A loop that ignores the indices from \<open>n\<close> on sees only the first \<open>n\<close> elements.\<close>

lemma foldl_ignored:
  assumes "\<And>acc p. p \<in> set ps \<Longrightarrow> f acc p = acc"
  shows "foldl f acc ps = acc"
  using assms by (induction ps arbitrary: acc) simp_all

lemma foldl_first_n:
  assumes skip: "\<And>acc i r. n \<le> i \<Longrightarrow> f acc (i, r) = acc"
  shows "foldl f acc (enumerate 0 xs) = foldl f acc (enumerate 0 (take n xs))"
proof -
  have late: "foldl f a (enumerate (length (take n xs)) (drop n xs)) = a" for a
  proof (rule foldl_ignored)
    fix acc p assume p: "p \<in> set (enumerate (length (take n xs)) (drop n xs))"
    then have "drop n xs \<noteq> []" by auto
    then have "length (take n xs) = n" by simp
    with p have "n \<le> fst p" by (auto simp: in_set_enumerate_eq)
    then show "f acc p = acc" using skip [of "fst p" acc "snd p"] by simp
  qed
  have e: "enumerate 0 xs = enumerate 0 (take n xs) @ enumerate (length (take n xs)) (drop n xs)"
    by (metis add_0 append_take_drop_id enumerate_append_eq)
  show ?thesis
    by (subst e) (simp only: foldl_append late)
qed

lemma enumerate_take_index: "p \<in> set (enumerate 0 (take n xs)) \<Longrightarrow> fst p < n"
  by (auto simp: in_set_enumerate_eq)

text \<open>Stable descending sort: a permutation.\<close>

lemma set_insertDesc: "set (insertDesc x ys) = insert x (set ys)"
  by (induction ys) auto

lemma set_sortDesc: "set (sortDesc xs) = set xs"
  by (induction xs) (simp_all add: sortDesc_def set_insertDesc)

lemma distinct_insertDesc:
  "distinct (map fst (insertDesc x ys)) \<longleftrightarrow> fst x \<notin> fst ` set ys \<and> distinct (map fst ys)"
  by (induction ys) (auto simp: set_insertDesc)

lemma distinct_sortDesc: "distinct (map fst xs) \<Longrightarrow> distinct (map fst (sortDesc xs))"
proof (induction xs)
  case Nil
  then show ?case by (simp add: sortDesc_def)
next
  case (Cons x xs)
  have "set (foldr insertDesc xs []) = set xs"
    using set_sortDesc [of xs] by (simp add: sortDesc_def)
  then show ?case
    using Cons by (simp add: sortDesc_def distinct_insertDesc)
qed

lemma distinct_take_map: "distinct (map f xs) \<Longrightarrow> distinct (map f (take n xs))"
  by (metis distinct_take take_map)

text \<open>The numeric branch: the values of a label, in the order of the records.\<close>

lemma groupValue_keys:
  "i < 1000 \<Longrightarrow> map fst (AnimateChart_groupValue lc dc M (i, r)) = addOnce (map fst M) (rowLabel lc i r)"
  by (simp add: AnimateChart_groupValue_def Let_def addOnce_def map_fst_mapSet mapHas_iff)

lemma groupValue_values:
  "i < 1000 \<Longrightarrow> mapGetList (AnimateChart_groupValue lc dc M (i, r)) l =
     (if rowLabel lc i r = l then mapGetList M l @ [cellNumber (Fin 0) (objGet r dc)] else mapGetList M l)"
  by (auto simp: AnimateChart_groupValue_def Let_def mapGetList_mapSet)
     (simp add: mapGetList_def mapHas_def)

lemma foldl_groupValue:
  assumes "\<forall>p\<in>set irs. fst p < 1000"
  shows "map fst (foldl (AnimateChart_groupValue lc dc) M irs)
           = foldl addOnce (map fst M) (map (\<lambda>(i, r). rowLabel lc i r) irs)
       \<and> mapGetList (foldl (AnimateChart_groupValue lc dc) M irs) l
           = mapGetList M l @ map (\<lambda>(i, r). cellNumber (Fin 0) (objGet r dc))
                                (filter (\<lambda>(i, r). rowLabel lc i r = l) irs)"
  using assms
proof (induction irs arbitrary: M)
  case Nil
  then show ?case by simp
next
  case (Cons p irs)
  obtain i r where p: "p = (i, r)" by (cases p)
  with Cons.prems have i: "i < 1000" by simp
  show ?case
    using Cons.IH [of "AnimateChart_groupValue lc dc M (i, r)"] Cons.prems
    by (simp add: p groupValue_keys [OF i] groupValue_values [OF i])
qed

lemma countValue_keys:
  "i < 1000 \<Longrightarrow> map fst (AnimateChart_countValue lc dc M (i, r)) = addOnce (map fst M) (rowLabel lc i r)"
proof (cases "mapHas M (rowLabel lc i r)")
  case True
  then show "i < 1000 \<Longrightarrow> ?thesis"
    by (simp add: AnimateChart_countValue_def Let_def addOnce_def map_fst_mapSet mapHas_iff)
next
  case False
  then show "i < 1000 \<Longrightarrow> ?thesis"
    by (simp add: AnimateChart_countValue_def Let_def addOnce_def map_fst_mapSet mapHas_mapSet)
       (simp add: mapHas_iff)
qed

lemma foldl_countValue_keys:
  assumes "\<forall>p\<in>set irs. fst p < 1000"
  shows "map fst (foldl (AnimateChart_countValue lc dc) M irs)
           = foldl addOnce (map fst M) (map (\<lambda>(i, r). rowLabel lc i r) irs)"
  using assms
proof (induction irs arbitrary: M)
  case Nil
  then show ?case by simp
next
  case (Cons p irs)
  obtain i r where p: "p = (i, r)" by (cases p)
  with Cons.prems have i: "i < 1000" by simp
  show ?case
    using Cons.IH [of "AnimateChart_countValue lc dc M (i, r)"] Cons.prems
    by (simp add: p countValue_keys [OF i])
qed

lemma map_fst_pairs: "map fst (map (\<lambda>(l, v). (l, g v)) m) = map fst m"
  by (induction m) auto

lemma fst_comp_pairs:
  "fst \<circ> (\<lambda>(label, vals). (label, sumNums vals)) = fst"
  "fst \<circ> (\<lambda>(label, valueMap). (label, sumNums (map snd valueMap))) = fst"
  by (auto simp: fun_eq_iff)

text \<open>The records past the first 1000 do not reach the chart.\<close>

lemma processSelectedColumns_first_1000:
  "AnimateChart_processSelectedColumns data lc dc = AnimateChart_processSelectedColumns (take 1000 data) lc dc"
proof -
  have n: "AnimateChart_isNumericColumn (take 1000 data) dc = AnimateChart_isNumericColumn data dc"
    by (simp add: AnimateChart_isNumericColumn_def min_def)
  have g: "foldl (AnimateChart_groupValue lc dc) [] (enumerate 0 data)
         = foldl (AnimateChart_groupValue lc dc) [] (enumerate 0 (take 1000 data))"
    by (rule foldl_first_n) (simp add: AnimateChart_groupValue_def)
  have c: "foldl (AnimateChart_countValue lc dc) [] (enumerate 0 data)
         = foldl (AnimateChart_countValue lc dc) [] (enumerate 0 (take 1000 data))"
    by (rule foldl_first_n) (simp add: AnimateChart_countValue_def)
  show ?thesis
    unfolding AnimateChart_processSelectedColumns_def n g c by simp
qed

lemma processSelectedColumns_labels:
  "length (labels (AnimateChart_processSelectedColumns data lc dc)) \<le> 30
   \<and> distinct (labels (AnimateChart_processSelectedColumns data lc dc))"
proof -
  let ?irs = "enumerate 0 (take 1000 data)"
  have small: "\<forall>p\<in>set ?irs. fst p < 1000"
    by (auto dest: enumerate_take_index)
  have dg: "distinct (map fst (foldl (AnimateChart_groupValue lc dc) [] ?irs))"
    using foldl_groupValue [OF small, of lc dc "[]"] by (simp add: distinct_foldl_addOnce)
  have dc: "distinct (map fst (foldl (AnimateChart_countValue lc dc) [] ?irs))"
    using foldl_countValue_keys [OF small, of lc dc "[]"] by (simp add: distinct_foldl_addOnce)
  have "length (labels (AnimateChart_processSelectedColumns (take 1000 data) lc dc)) \<le> 30
   \<and> distinct (labels (AnimateChart_processSelectedColumns (take 1000 data) lc dc))"
    using dg dc
    by (auto simp: AnimateChart_processSelectedColumns_def Let_def map_fst_pairs fst_comp_pairs
        intro!: distinct_take_map distinct_sortDesc)
  then show ?thesis
    by (simp add: processSelectedColumns_first_1000 [symmetric])
qed

text \<open>
  Claim C2, as the code has it. With a label and a value column named, the FileToChart
  aggregation returns a chart, raising no error: its labels are the first 50 distinct
  labels of the first 1000 records, and the chart depends on the records only through
  the first 1000 of them and the flag \<open>isNumericValue\<close>, which is computed from all
  records. The AnimateChart aggregation of a list equals that of its first 1000 records,
  and its labels are distinct and at most 30.
\<close>

theorem chart_truncation:
  assumes "labelCol \<noteq> []" and "valueCol \<noteq> []"
  shows "(\<exists>cd. FileToChart_processDataForChart data labelCol valueCol seriesCol = Some cd
              \<and> labels cd = take 50 (setOrder (map (labelOf labelCol) (take 1000 data)))
              \<and> length (labels cd) \<le> 50 \<and> distinct (labels cd))
       \<and> (\<forall>data'. FileToChart_isNumericValue data' valueCol = FileToChart_isNumericValue data valueCol
              \<and> take 1000 data' = take 1000 data
            \<longrightarrow> FileToChart_processDataForChart data' labelCol valueCol seriesCol
                = FileToChart_processDataForChart data labelCol valueCol seriesCol)
       \<and> AnimateChart_processSelectedColumns data labelCol valueCol
           = AnimateChart_processSelectedColumns (take 1000 data) labelCol valueCol
       \<and> length (labels (AnimateChart_processSelectedColumns data labelCol valueCol)) \<le> 30
       \<and> distinct (labels (AnimateChart_processSelectedColumns data labelCol valueCol))"
proof -
  obtain cd where cd: "FileToChart_processDataForChart data labelCol valueCol seriesCol = Some cd"
      "labels cd = take 50 (setOrder (map (labelOf labelCol) (take 1000 data)))"
    using FileToChart_chart_labels [OF assms] by blast
  have "length (labels cd) \<le> 50 \<and> distinct (labels cd)"
    by (simp add: cd(2) distinct_setOrder)
  with cd have a: "\<exists>cd. FileToChart_processDataForChart data labelCol valueCol seriesCol = Some cd
              \<and> labels cd = take 50 (setOrder (map (labelOf labelCol) (take 1000 data)))
              \<and> length (labels cd) \<le> 50 \<and> distinct (labels cd)"
    by blast
  have b: "\<forall>data'. FileToChart_isNumericValue data' valueCol = FileToChart_isNumericValue data valueCol
              \<and> take 1000 data' = take 1000 data
            \<longrightarrow> FileToChart_processDataForChart data' labelCol valueCol seriesCol
                = FileToChart_processDataForChart data labelCol valueCol seriesCol"
    by (intro allI impI, erule conjE, rule FileToChart_chart_depends)
  have c: "AnimateChart_processSelectedColumns data labelCol valueCol
           = AnimateChart_processSelectedColumns (take 1000 data) labelCol valueCol"
    by (rule processSelectedColumns_first_1000)
  note d = processSelectedColumns_labels [of data labelCol valueCol]
  show ?thesis
    by (intro conjI a b c d [THEN conjunct1] d [THEN conjunct2])
qed

theorem chart_truncation_witness:
  "''k'' \<noteq> [] \<and> ''v'' \<noteq> [] \<and> length lateNumbers = 2000
   \<and> (\<exists>cd. FileToChart_processDataForChart lateNumbers ''k'' ''v'' [] = Some cd \<and> length (labels cd) \<le> 50)
   \<and> AnimateChart_processSelectedColumns lateNumbers ''k'' ''v''
       = AnimateChart_processSelectedColumns (take 1000 lateNumbers) ''k'' ''v''
   \<and> length (labels (AnimateChart_processSelectedColumns lateNumbers ''k'' ''v'')) \<le> 30"
proof -
  have a: "''k'' \<noteq> []" and b: "''v'' \<noteq> []" by simp_all
  have c: "length lateNumbers = 2000" by (simp add: lateNumbers_def)
  note t = chart_truncation [OF a b, of lateNumbers "[]"]
  have e: "\<exists>cd. FileToChart_processDataForChart lateNumbers ''k'' ''v'' [] = Some cd \<and> length (labels cd) \<le> 50"
    using t [THEN conjunct1] by blast
  show ?thesis
    by (intro conjI a b c e t [THEN conjunct2, THEN conjunct2, THEN conjunct1]
        t [THEN conjunct2, THEN conjunct2, THEN conjunct2, THEN conjunct1])
qed

section \<open>Sums per label\<close>










































end
